theory Spec2Isabelle
  imports Main
begin

section \<open>Python values, exceptions and printed output\<close>

text \<open>
  The exceptions the modelled code can raise. A function of the source that can raise
  returns \<open>error + 'a\<close> here, with \<open>Inl\<close> for the exception.
\<close>

datatype error = AttributeError | KeyError | IndexError | TypeError | ValueError
  | RequestError

text \<open>
  A scalar as it occurs in a table cell, as a dictionary key and as a column label:
  Python's \<open>None\<close>, the three special floats, a finite number, or a text. Finite
  numbers are represented by integers: the code never computes with them, and the
  change of a column's number type that pandas makes when a column holds a missing
  value is not represented.
\<close>

datatype cell = CNone | CNaN | CPosInf | CNegInf | CNum int | CStr string

text \<open>pandas' \<open>isna\<close>: \<open>None\<close> and \<open>NaN\<close> are the missing values.\<close>

fun isna :: "cell \<Rightarrow> bool" where
  "isna CNone = True"
| "isna CNaN = True"
| "isna _ = False"

subsection \<open>Rendering integers (\<open>str\<close> of an \<open>int\<close>, as an f-string does)\<close>

definition digit_char :: "nat \<Rightarrow> char" where
  "digit_char d = char_of (48 + d)"

fun str_nat :: "nat \<Rightarrow> string" where
  "str_nat n = (if n < 10 then [digit_char n] else str_nat (n div 10) @ [digit_char (n mod 10)])"

declare str_nat.simps [simp del]

definition str_int :: "int \<Rightarrow> string" where
  "str_int i = (if i < 0 then CHR ''-'' # str_nat (nat (- i)) else str_nat (nat i))"

section \<open>Data frames\<close>

text \<open>
  A pandas \<open>DataFrame\<close> with an integer index: the row labels, the column labels and
  the rows (row-major). In a frame built by pandas every row has as many cells as there
  are columns and there are as many labels as rows (\<open>rectangular\<close>).
\<close>

record dataframe =
  index :: "int list"
  columns :: "cell list"
  rows :: "cell list list"

definition rectangular :: "dataframe \<Rightarrow> bool" where
  "rectangular df \<longleftrightarrow>
     length (index df) = length (rows df) \<and>
     list_all (\<lambda>r. length r = length (columns df)) (rows df)"

text \<open>\<open>df.shape\<close>\<close>

definition shape :: "dataframe \<Rightarrow> nat \<times> nat" where
  "shape df = (length (rows df), length (columns df))"

text \<open>
  \<open>pd.DataFrame(data)\<close> for a list of dictionaries: the columns are the keys in the
  order in which they are first seen, a key missing from a row gives \<open>NaN\<close>, the index
  is \<open>0 .. len(data) - 1\<close>.
\<close>

fun add_new :: "'a list \<Rightarrow> 'a list \<Rightarrow> 'a list" where
  "add_new seen [] = seen"
| "add_new seen (k # ks) = add_new (if k \<in> set seen then seen else seen @ [k]) ks"

definition union_keys :: "('k \<times> 'v) list list \<Rightarrow> 'k list" where
  "union_keys data = foldl add_new [] (map (map fst) data)"

definition record_row :: "cell list \<Rightarrow> (cell \<times> cell) list \<Rightarrow> cell list" where
  "record_row cols d = map (\<lambda>c. case map_of d c of None \<Rightarrow> CNaN | Some v \<Rightarrow> v) cols"

definition DataFrame :: "(cell \<times> cell) list list \<Rightarrow> dataframe" where
  "DataFrame data =
     \<lparr>index = map int [0..<length data],
      columns = union_keys data,
      rows = map (record_row (union_keys data)) data\<rparr>"

text \<open>\<open>df.fillna(np.nan, inplace=True)\<close>\<close>

fun fillna_cell :: "cell \<Rightarrow> cell" where
  "fillna_cell c = (if isna c then CNaN else c)"

definition fillna :: "dataframe \<Rightarrow> dataframe" where
  "fillna df = df\<lparr>rows := map (map fillna_cell) (rows df)\<rparr>"

text \<open>\<open>df.dropna(axis=0, how="all", inplace=True)\<close>: the labels of the kept rows stay.\<close>

definition dropna_rows :: "dataframe \<Rightarrow> dataframe" where
  "dropna_rows df =
     (let kept = filter (\<lambda>(i, r). \<not> list_all isna r) (zip (index df) (rows df))
      in df\<lparr>index := map fst kept, rows := map snd kept\<rparr>)"

text \<open>\<open>df.dropna(axis=1, how="all", inplace=True)\<close>, on a rectangular frame: column
  \<open>j\<close> is kept when some row holds a value in its cell \<open>j\<close>.\<close>

definition select :: "bool list \<Rightarrow> 'a list \<Rightarrow> 'a list" where
  "select keep xs = map snd (filter fst (zip keep xs))"

definition column_mask :: "dataframe \<Rightarrow> bool list" where
  "column_mask df =
     map (\<lambda>j. \<not> list_all (\<lambda>r. isna (r ! j)) (rows df)) [0..<length (columns df)]"

definition dropna_columns :: "dataframe \<Rightarrow> dataframe" where
  "dropna_columns df =
     df\<lparr>columns := select (column_mask df) (columns df),
        rows := map (select (column_mask df)) (rows df)\<rparr>"

text \<open>
  \<open>df.iloc[0].tolist()\<close> raises \<open>IndexError\<close> on a frame without rows;
  \<open>df.drop(0, inplace=True)\<close> removes the rows labelled 0 and raises \<open>KeyError\<close> when
  no row has that label.
\<close>

definition iloc0 :: "dataframe \<Rightarrow> error + cell list" where
  "iloc0 df = (case rows df of [] \<Rightarrow> Inl IndexError | r # _ \<Rightarrow> Inr r)"

definition drop_label :: "int \<Rightarrow> dataframe \<Rightarrow> error + dataframe" where
  "drop_label l df =
     (if l \<notin> set (index df) then Inl KeyError
      else let kept = filter (\<lambda>(i, r). i \<noteq> l) (zip (index df) (rows df))
           in Inr (df\<lparr>index := map fst kept, rows := map snd kept\<rparr>))"

text \<open>\<open>df.sort_index(inplace=True)\<close> and \<open>df.reset_index(drop=True, inplace=True)\<close>\<close>

definition sort_index :: "dataframe \<Rightarrow> dataframe" where
  "sort_index df =
     (let s = sort_key fst (zip (index df) (rows df))
      in df\<lparr>index := map fst s, rows := map snd s\<rparr>)"

definition reset_index :: "dataframe \<Rightarrow> dataframe" where
  "reset_index df = df\<lparr>index := map int [0..<length (rows df)]\<rparr>"

text \<open>
  \<open>df.loc[l] = values\<close> with one value for each column: overwrites the rows labelled
  \<open>l\<close>; when no row has that label a row is appended, which pandas refuses with a
  \<open>ValueError\<close> (cannot set a frame with no defined columns) for a frame without
  columns.
\<close>

definition loc_set :: "int \<Rightarrow> cell list \<Rightarrow> dataframe \<Rightarrow> error + dataframe" where
  "loc_set l vals df =
     (if l \<in> set (index df)
      then Inr (df\<lparr>rows := map (\<lambda>(i, r). if i = l then vals else r) (zip (index df) (rows df))\<rparr>)
      else if columns df = [] then Inl ValueError
      else Inr (df\<lparr>index := index df @ [l], rows := rows df @ [vals]\<rparr>))"

text \<open>\<open>df.replace({np.nan: None, np.inf: None, -np.inf: None}, inplace=True)\<close>\<close>

fun replace_cell :: "cell \<Rightarrow> cell" where
  "replace_cell CNaN = CNone"
| "replace_cell CPosInf = CNone"
| "replace_cell CNegInf = CNone"
| "replace_cell c = c"

definition replace_special :: "dataframe \<Rightarrow> dataframe" where
  "replace_special df = df\<lparr>rows := map (map replace_cell) (rows df)\<rparr>"

section \<open>The wire format of a table\<close>

text \<open>
  A sheet's cell grid is a dictionary from row keys to dictionaries from column keys to
  cell entries; dictionaries are association lists in insertion order, with distinct
  keys. A well-formed cell entry is a dictionary that may hold the key \<open>value\<close>; an
  entry that is not a dictionary (a bare scalar) is malformed.
\<close>

datatype wire_entry = WDict "(string \<times> cell) list" | WScalar cell

type_synonym wire_row = "(cell \<times> wire_entry) list"
type_synonym grid = "(cell \<times> wire_row) list"

record wire_sheet =
  name :: string
  rowCount :: nat
  columnCount :: nat
  dataTable :: grid

text \<open>
  \<open>entry.get("value", None)\<close>: a dictionary answers with the value or \<open>None\<close>;
  any other object has no attribute \<open>get\<close>.
\<close>

fun get_value :: "wire_entry \<Rightarrow> error + cell" where
  "get_value (WDict kvs) = Inr (case map_of kvs ''value'' of None \<Rightarrow> CNone | Some v \<Rightarrow> v)"
| "get_value (WScalar _) = Inl AttributeError"

subsection \<open>\<open>table_to_pandas\<close> (wire to tabular)\<close>

text \<open>
  The dictionary comprehension
  \<open>{col: table[row][col].get("value", None) for col in table[row].keys()}\<close>.
\<close>

fun row_values :: "wire_row \<Rightarrow> error + (cell \<times> cell) list" where
  "row_values [] = Inr []"
| "row_values ((col, e) # r) =
     (case get_value e of
        Inl err \<Rightarrow> Inl err
      | Inr v \<Rightarrow> (case row_values r of Inl err \<Rightarrow> Inl err | Inr vs \<Rightarrow> Inr ((col, v) # vs)))"

text \<open>
  The body of the loop over the rows: the comprehension under \<open>try\<close>, and the handler
  \<open>except KeyError\<close>, which appends \<open>{col: None for col in table[row].keys()}\<close>. Any
  other exception leaves the function.
\<close>

definition build_row :: "wire_row \<Rightarrow> error + (cell \<times> cell) list" where
  "build_row r =
     (case row_values r of
        Inl KeyError \<Rightarrow> Inr (map (\<lambda>(col, e). (col, CNone)) r)
      | Inl err \<Rightarrow> Inl err
      | Inr vs \<Rightarrow> Inr vs)"

fun collect_rows :: "grid \<Rightarrow> error + (cell \<times> cell) list list" where
  "collect_rows [] = Inr []"
| "collect_rows ((row, r) # t) =
     (case build_row r of
        Inl err \<Rightarrow> Inl err
      | Inr d \<Rightarrow> (case collect_rows t of Inl err \<Rightarrow> Inl err | Inr ds \<Rightarrow> Inr (d # ds)))"

text \<open>
  \<open>df.columns = df.iloc[0].tolist()\<close> followed by \<open>df.drop(0, inplace=True)\<close>: the
  names come from the row at position 0, the row removed is the one labelled 0.
\<close>

definition take_header :: "dataframe \<Rightarrow> error + dataframe" where
  "take_header df =
     (case iloc0 df of
        Inl err \<Rightarrow> Inl err
      | Inr names \<Rightarrow> drop_label 0 (df\<lparr>columns := names\<rparr>))"

definition table_to_pandas :: "grid \<Rightarrow> bool \<Rightarrow> error + dataframe" where
  "table_to_pandas table header =
     (case collect_rows table of
        Inl err \<Rightarrow> Inl err
      | Inr data \<Rightarrow>
          (let df = dropna_columns (dropna_rows (fillna (DataFrame data)))
           in case (if header then take_header df else Inr df) of
                Inl err \<Rightarrow> Inl err
              | Inr df' \<Rightarrow> Inr (reset_index (sort_index df'))))"

subsection \<open>One sheet of \<open>convert_pd_to_export\<close> (tabular to wire)\<close>

text \<open>
  \<open>df.index = df.index + 1\<close> and \<open>df.loc[0] = df.columns\<close>, done when \<open>header\<close> is set.
\<close>

definition add_header_row :: "dataframe \<Rightarrow> error + dataframe" where
  "add_header_row df = loc_set 0 (columns df) (df\<lparr>index := map (\<lambda>i. i + 1) (index df)\<rparr>)"

text \<open>\<open>df.to_dict(orient="index")\<close>\<close>

definition to_dict_index :: "dataframe \<Rightarrow> (cell \<times> (cell \<times> cell) list) list" where
  "to_dict_index df = zip (map CNum (index df)) (map (zip (columns df)) (rows df))"

definition wrap_values :: "(cell \<times> (cell \<times> cell) list) list \<Rightarrow> grid" where
  "wrap_values d = map (\<lambda>(row, cs). (row, map (\<lambda>(col, v). (col, WDict [(''value'', v)])) cs)) d"

definition export_sheet :: "bool \<Rightarrow> string \<Rightarrow> dataframe \<Rightarrow> error + wire_sheet" where
  "export_sheet header sheet df =
     (case (if header then add_header_row df else Inr df) of
        Inl err \<Rightarrow> Inl err
      | Inr df1 \<Rightarrow>
          (let df2 = reset_index (sort_index df1);
               row_count = fst (shape df2);
               column_count = snd (shape df2);
               df3 = df2\<lparr>columns := map (\<lambda>j. CNum (int j)) [0..<snd (shape df2)]\<rparr>;
               df4 = replace_special df3
           in Inr \<lparr>name = sheet, rowCount = row_count, columnCount = column_count,
                   dataTable = wrap_values (to_dict_index df4)\<rparr>))"

section \<open>Wire records of elements, printed output, the session\<close>

text \<open>
  An element record as the API delivers it: a dictionary read with
  \<open>element.get(key, default)\<close>; a field is \<open>None\<close> here when the key is absent,
  and \<open>rec_children\<close> is the empty list when the key \<open>children\<close> is.
\<close>

datatype wire_record = WireRecord
  (element_type: "string option")
  (rec_id: "string option")
  (rec_title: "string option")
  (rec_content: "string option")
  (rec_description: "string option")
  (rec_original_file_content_type: "string option")
  (rec_entry_id: "string option")
  (rec_children: "wire_record list")

definition get_or :: "'a option \<Rightarrow> 'a \<Rightarrow> 'a" where
  "get_or field dflt = (case field of None \<Rightarrow> dflt | Some v \<Rightarrow> v)"

text \<open>
  What \<open>self.table\<close> may hold under a sheet name: a \<open>DataFrame\<close>; a wire sheet (a
  dictionary with \<open>data\<close> and \<open>dataTable\<close>); the dictionary \<open>df.to_dict()\<close> returns
  (column label to row label to value), which has no key \<open>data\<close>; or a value that is
  neither a frame nor a dictionary.
\<close>

datatype sheet_val =
    SFrame dataframe
  | SWire wire_sheet
  | SColumns "(cell \<times> (int \<times> cell) list) list"
  | SOther cell

type_synonym table = "(string \<times> sheet_val) list"

fun is_frame :: "sheet_val \<Rightarrow> bool" where
  "is_frame (SFrame _) = True"
| "is_frame _ = False"

fun is_dict :: "sheet_val \<Rightarrow> bool" where
  "is_dict (SWire _) = True"
| "is_dict (SColumns _) = True"
| "is_dict _ = False"

text \<open>
  The lines the code prints. A line whose text is the \<open>repr\<close> of an object carries
  the object instead of a rendering of it.
\<close>

datatype printed =
    Line string
  | Pair string string
  | Table_repr "table option"
  | Conversion_failed error
  | Unknown_element_type wire_record

text \<open>
  The session object: Python's \<open>None\<close> is \<open>None\<close>, a \<open>LabFolderUserInfo\<close> is
  \<open>Some\<close>. Its attribute \<open>user_id\<close> exists only after a successful login.
\<close>

record user_info =
  api_address :: string
  user_id :: "string option"

text \<open>
  The table document \<open>requests.get(".../elements/table/<id>").json()\<close> returns, read
  through the keys \<open>entry_id\<close>, \<open>creation_date\<close>, \<open>owner_id\<close>, \<open>title\<close> and
  \<open>content.sheets\<close>. The server is a function of the element identifier; \<open>Inl\<close> stands
  for a request or a lookup that raises.
\<close>

record table_json =
  tj_entry_id :: string
  tj_creation_date :: string
  tj_owner_id :: string
  tj_title :: string
  tj_sheets :: table

type_synonym server = "string \<Rightarrow> error + table_json"

section \<open>\<open>TableElement\<close>\<close>

record table_element =
  tb_type :: string
  tb_entry_id :: string
  tb_element_id :: string
  tb_table :: "table option"
  tb_creation_date :: string
  tb_owner_id :: string
  tb_title :: string

text \<open>\<open>self.table[sheet]["data"]["dataTable"]\<close>\<close>

fun sheet_data_table :: "sheet_val \<Rightarrow> error + grid" where
  "sheet_data_table (SWire w) = Inr (dataTable w)"
| "sheet_data_table (SColumns _) = Inl KeyError"
| "sheet_data_table (SFrame _) = Inl KeyError"
| "sheet_data_table (SOther _) = Inl TypeError"

text \<open>
  The comprehension \<open>{sheet: table_to_pandas(self.table[sheet]["data"]["dataTable"],
  header=header) for sheet in self.table.keys()}\<close>.
\<close>

fun sheets_to_pandas :: "table \<Rightarrow> bool \<Rightarrow> error + (string \<times> dataframe) list" where
  "sheets_to_pandas [] header = Inr []"
| "sheets_to_pandas ((sheet, v) # t) header =
     (case sheet_data_table v of
        Inl err \<Rightarrow> Inl err
      | Inr g \<Rightarrow>
          (case table_to_pandas g header of
             Inl err \<Rightarrow> Inl err
           | Inr df \<Rightarrow>
               (case sheets_to_pandas t header of
                  Inl err \<Rightarrow> Inl err
                | Inr dfs \<Rightarrow> Inr ((sheet, df) # dfs))))"

text \<open>
  \<open>table_to_pd(self, header, in_place)\<close>. The result is the object after the call, the
  value returned and the lines printed. The converted sheets are bound to the local
  name \<open>table\<close> only; no statement of the method assigns to \<open>self.table\<close> or to one of
  its entries.
\<close>

definition table_to_pd ::
  "table_element \<Rightarrow> bool \<Rightarrow> bool \<Rightarrow>
     error + (table_element \<times> (string \<times> dataframe) list option \<times> printed list)" where
  "table_to_pd self header in_place =
     (case tb_table self of
        None \<Rightarrow> Inl AttributeError
      | Some t \<Rightarrow>
          if list_ex is_frame (map snd t)
          then Inr (self, None,
                 [Line ''Table already converted to pandas DataFrame.'', Table_repr (tb_table self)])
          else (case sheets_to_pandas t header of
                  Inl err \<Rightarrow> Inl err
                | Inr converted \<Rightarrow>
                    if \<not> in_place then Inr (self, Some converted, [])
                    else Inr (self, None, [])))"

text \<open>
  \<open>load_table(self, user_info, to_pd, header)\<close>
\<close>

definition load_table ::
  "table_element \<Rightarrow> user_info option \<Rightarrow> server \<Rightarrow> bool \<Rightarrow> bool \<Rightarrow>
     error + (table_element \<times> printed list)" where
  "load_table self user_info srv to_pd header =
     (if tb_element_id self = '''' then Inr (self, [Line ''No table ID provided.''])
      else if user_info = None
      then Inr (self, [Line ''Not logged into Labfolder. User information required.''])
      else (case srv (tb_element_id self) of
              Inl err \<Rightarrow> Inl err
            | Inr t \<Rightarrow>
                (let self1 = self\<lparr>tb_entry_id := tj_entry_id t,
                                  tb_creation_date := tj_creation_date t,
                                  tb_owner_id := tj_owner_id t,
                                  tb_title := tj_title t,
                                  tb_table := Some (tj_sheets t)\<rparr>
                 in if to_pd
                    then (case table_to_pd self1 header True of
                            Inl err \<Rightarrow> Inl err
                          | Inr (self2, ret, out) \<Rightarrow> Inr (self2, out))
                    else Inr (self1, []))))"

text \<open>
  \<open>TableElement.__init__(self, user_info, element_id, entry_id, table, import_as_pd,
  header)\<close>
\<close>

definition TableElement_init ::
  "user_info option \<Rightarrow> server \<Rightarrow> string \<Rightarrow> string \<Rightarrow> table option \<Rightarrow> bool \<Rightarrow> bool \<Rightarrow>
     error + (table_element \<times> printed list)" where
  "TableElement_init user_info srv element_id entry_id tbl import_as_pd header =
     (case (case user_info of
              None \<Rightarrow> Inr ''''
            | Some u \<Rightarrow> (case user_id u of None \<Rightarrow> Inl AttributeError | Some i \<Rightarrow> Inr i)) of
        Inl err \<Rightarrow> Inl err
      | Inr owner \<Rightarrow>
          (let self = \<lparr>tb_type = ''TABLE'', tb_entry_id = entry_id, tb_element_id = element_id,
                       tb_table = tbl, tb_creation_date = '''', tb_owner_id = owner,
                       tb_title = ''''\<rparr>
           in if user_info \<noteq> None \<and> element_id \<noteq> ''''
              then (case load_table self user_info srv import_as_pd header of
                      Inl err \<Rightarrow> Inl err
                    | Inr (self1, out1) \<Rightarrow>
                        if import_as_pd
                        then (case table_to_pd self1 header True of
                                Inl err \<Rightarrow> Inl err
                              | Inr (self2, ret, out2) \<Rightarrow> Inr (self2, out1 @ out2))
                        else Inr (self1, out1))
              else Inr (self, [])))"

text \<open>
  The loop of \<open>convert_pd_to_export\<close> over the sheets of the copied table. On a value
  that is not a frame the first attribute access raises: with \<open>header\<close> it is
  \<open>.index + 1\<close> (a text has a method \<open>index\<close>, and adding 1 to it is a \<open>TypeError\<close>),
  without it is \<open>.sort_index\<close>.
\<close>

fun not_a_frame :: "bool \<Rightarrow> sheet_val \<Rightarrow> error" where
  "not_a_frame True (SOther (CStr _)) = TypeError"
| "not_a_frame _ _ = AttributeError"

fun export_sheets :: "bool \<Rightarrow> table \<Rightarrow> error + (string \<times> wire_sheet) list" where
  "export_sheets header [] = Inr []"
| "export_sheets header ((sheet, SFrame df) # t) =
     (case export_sheet header sheet df of
        Inl err \<Rightarrow> Inl err
      | Inr w \<Rightarrow>
          (case export_sheets header t of
             Inl err \<Rightarrow> Inl err
           | Inr ws \<Rightarrow> Inr ((sheet, w) # ws)))"
| "export_sheets header ((sheet, v) # t) = Inl (not_a_frame header v)"

text \<open>
  \<open>convert_pd_to_export(self, header)\<close>: the wire document (the dictionary under
  \<open>sheets\<close>), or \<open>None\<close> after a caught exception, or an exception.
\<close>

definition caught :: "error \<Rightarrow> bool" where
  "caught err \<longleftrightarrow> err \<in> {TypeError, ValueError, KeyError, AttributeError}"

definition convert_pd_to_export ::
  "table_element \<Rightarrow> bool \<Rightarrow>
     error + (table_element \<times> (string \<times> wire_sheet) list option \<times> printed list)" where
  "convert_pd_to_export self header =
     (case tb_table self of
        None \<Rightarrow> Inl AttributeError
      | Some t \<Rightarrow>
          (case (if \<not> list_all is_frame (map snd t)
                 then (case table_to_pd self True True of
                         Inl err \<Rightarrow> if caught err then Inr (self, True, [Conversion_failed err])
                                    else Inl err
                       | Inr (self1, ret, out) \<Rightarrow> Inr (self1, False, out))
                 else Inr (self, False, [])) of
             Inl err \<Rightarrow> Inl err
           | Inr (self1, failed, out) \<Rightarrow>
               if failed then Inr (self1, None, out)
               else (case export_sheets header (get_or (tb_table self1) []) of
                       Inl err \<Rightarrow> Inl err
                     | Inr ws \<Rightarrow> Inr (self1, Some ws, out))))"

text \<open>
  \<open>TableElement.to_dict(self, in_place)\<close>: every sheet that is a frame is replaced by
  \<open>df.to_dict()\<close>; with \<open>in_place\<close> the replacement is made in \<open>self.table\<close> itself
  and the method returns \<open>None\<close>.
\<close>

definition DataFrame_to_dict :: "dataframe \<Rightarrow> (cell \<times> (int \<times> cell) list) list" where
  "DataFrame_to_dict df =
     map (\<lambda>(j, c). (c, zip (index df) (map (\<lambda>r. r ! j) (rows df)))) (enumerate 0 (columns df))"

fun sheet_to_dict :: "string \<times> sheet_val \<Rightarrow> (string \<times> sheet_val) \<times> printed list" where
  "sheet_to_dict (sheet, SFrame df) = ((sheet, SColumns (DataFrame_to_dict df)), [])"
| "sheet_to_dict (sheet, v) =
     (if is_dict v then ((sheet, v), [])
      else ((sheet, v), [Line (''Sheet '' @ sheet @ '' is not a pandas DataFrame or dictionary.'')]))"

definition TableElement_to_dict ::
  "table_element \<Rightarrow> bool \<Rightarrow> error + (table_element \<times> table option \<times> printed list)" where
  "TableElement_to_dict self in_place =
     (case tb_table self of
        None \<Rightarrow> Inl AttributeError
      | Some t \<Rightarrow>
          (let res = map sheet_to_dict t;
               t' = map fst res;
               out = concat (map snd res)
           in if \<not> in_place then Inr (self, Some t', out)
              else Inr (self\<lparr>tb_table := Some t'\<rparr>, None, out)))"

section \<open>Responses of the API\<close>

text \<open>
  What the server answers to a request: the status code and, when the body is a JSON
  object with the key \<open>id\<close>, that identifier. \<open>requests.post\<close> and \<open>requests.put\<close>
  return a \<open>Response\<close> that also knows the method of its request.
\<close>

record reply =
  reply_status :: int
  reply_id :: "string option"

datatype http_method = POST | PUT | GET

record response =
  request_method :: http_method
  status_code :: int
  json_id :: "string option"

definition requests_post :: "reply \<Rightarrow> response" where
  "requests_post r = \<lparr>request_method = POST, status_code = reply_status r, json_id = reply_id r\<rparr>"

definition requests_put :: "reply \<Rightarrow> response" where
  "requests_put r = \<lparr>request_method = PUT, status_code = reply_status r, json_id = reply_id r\<rparr>"

text \<open>\<open>response.json()["id"]\<close>\<close>

definition response_json_id :: "response \<Rightarrow> error + string" where
  "response_json_id response = (case json_id response of None \<Rightarrow> Inl KeyError | Some i \<Rightarrow> Inr i)"

text \<open>
  \<open>response == 200\<close> compares the \<open>Response\<close> object itself with an integer.
  \<open>requests.Response\<close> defines no \<open>__eq__\<close> and \<open>int.__eq__\<close> answers
  \<open>NotImplemented\<close> for an object that is not a number, so Python falls back to the
  identity of the two objects, which are distinct: the comparison is false for every
  response and every integer.
\<close>

definition response_eq :: "response \<Rightarrow> int \<Rightarrow> bool" where
  "response_eq response n = False"

text \<open>\<open>_handle_response(element, response, silent, return_status)\<close>, with \<open>element.type\<close>
  as its first argument.\<close>

definition handle_response ::
  "string \<Rightarrow> response \<Rightarrow> bool \<Rightarrow> bool \<Rightarrow> bool option \<times> printed list" where
  "handle_response etype response silent return_status =
     (let (response_text, status) =
            (if response_eq response 200 \<and> request_method response = PUT
             then (Pair etype ''updated on Labfolder.'', True)
             else if response_eq response 201 \<and> request_method response = POST
             then (Pair etype ''written to Labfolder.'', True)
             else ((if request_method response = POST
                    then Line (etype @ '' could not be written to Labfolder. Status code: ''
                               @ str_int (status_code response))
                    else if request_method response = PUT
                    then Line (etype @ '' could not be updated on Labfolder. Status code: ''
                               @ str_int (status_code response))
                    else Line ''''), False))
      in (if return_status then Some status else None,
          if \<not> silent then [response_text] else []))"

section \<open>The element classes\<close>

record data_element =
  de_type :: string
  de_element_id :: string
  de_description :: string

record descriptive_data_element =
  dd_type :: string
  dd_title :: string
  dd_element_id :: string
  dd_description :: string

record file_element =
  fe_type :: string
  fe_element_id :: string

record image_element =
  im_type :: string
  im_title :: string
  im_element_id :: string
  im_original_file_content_type :: string
  im_creation_date :: string
  im_image :: "string option"
  im_owner_id :: string

record text_element =
  te_type :: string
  te_element_id :: string
  te_content :: string
  te_id :: string

definition DataElement_init :: "string \<Rightarrow> string \<Rightarrow> data_element" where
  "DataElement_init element_id description =
     \<lparr>de_type = ''DATA'', de_element_id = element_id, de_description = description\<rparr>"

definition DescriptiveDataElement_init :: "string \<Rightarrow> string \<Rightarrow> string \<Rightarrow> descriptive_data_element" where
  "DescriptiveDataElement_init title element_id description =
     \<lparr>dd_type = ''DESCRIPTIVE_DATA_ELEMENT'', dd_title = title, dd_element_id = element_id,
      dd_description = description\<rparr>"

definition FileElement_init :: "string \<Rightarrow> file_element" where
  "FileElement_init element_id = \<lparr>fe_type = ''FILE'', fe_element_id = element_id\<rparr>"

definition ImageElement_init :: "string \<Rightarrow> string \<Rightarrow> string \<Rightarrow> image_element" where
  "ImageElement_init title element_id original_file_content_type =
     \<lparr>im_type = ''IMAGE'', im_title = title, im_element_id = element_id,
      im_original_file_content_type = original_file_content_type, im_creation_date = '''',
      im_image = None, im_owner_id = ''''\<rparr>"

definition TextElement_init :: "string \<Rightarrow> string \<Rightarrow> text_element" where
  "TextElement_init content element_id =
     \<lparr>te_type = ''TEXT'', te_element_id = element_id, te_content = content, te_id = ''''\<rparr>"

text \<open>
  A group owns a list of children of any class. \<open>DataElementGroup(title, children)\<close>
  starts with the type tag \<open>DATA_ELEMENT_GROUP\<close> and an empty identifier.
\<close>

datatype element =
    Data data_element
  | DescriptiveData descriptive_data_element
  | File file_element
  | Image image_element
  | Text text_element
  | Table table_element
  | Group group
and group = DataElementGroup
  (grp_type: string) (grp_title: string) (grp_element_id: string) (children: "element list")

definition DataElementGroup_init :: "string \<Rightarrow> element list \<Rightarrow> group" where
  "DataElementGroup_init title cs = DataElementGroup ''DATA_ELEMENT_GROUP'' title '''' cs"

subsection \<open>\<open>DataElement\<close> and \<open>TextElement\<close>\<close>

text \<open>
  \<open>write_to_labfolder(self, user_info, entry_id)\<close> and \<open>update_on_labfolder(self,
  user_info)\<close>. The session supplies the address and the credential of the request
  only; the answer of the server is the argument \<open>r\<close>. The result is the object after
  the call and the lines printed.
\<close>

definition DataElement_write_to_labfolder ::
  "data_element \<Rightarrow> string \<Rightarrow> reply \<Rightarrow> error + (data_element \<times> printed list)" where
  "DataElement_write_to_labfolder self entry_id r =
     (if entry_id = '''' then Inr (self, [Line ''No entry_id provided.''])
      else (let response = requests_post r;
                (status, out) = handle_response (de_type self) response False True
            in if status = Some True
               then (case response_json_id response of
                       Inl err \<Rightarrow> Inl err
                     | Inr i \<Rightarrow> Inr (self\<lparr>de_element_id := i\<rparr>, out))
               else Inr (self, out)))"

definition DataElement_update_on_labfolder ::
  "data_element \<Rightarrow> reply \<Rightarrow> error + (data_element \<times> printed list)" where
  "DataElement_update_on_labfolder self r =
     (if de_description self = '''' then Inr (self, [Line ''No data to write.''])
      else (let response = requests_put r;
                (status, out) = handle_response (de_type self) response False False
            in Inr (self, out)))"

definition TextElement_write_to_labfolder ::
  "text_element \<Rightarrow> string \<Rightarrow> reply \<Rightarrow> error + (text_element \<times> printed list)" where
  "TextElement_write_to_labfolder self entry_id r =
     (if entry_id = '''' then Inr (self, [Line ''No entry_id provided.''])
      else (let response = requests_post r;
                (status, out) = handle_response (te_type self) response False True
            in if status = Some True
               then (case response_json_id response of
                       Inl err \<Rightarrow> Inl err
                     | Inr i \<Rightarrow> Inr (self\<lparr>te_id := i\<rparr>, out))
               else Inr (self, out)))"

definition TextElement_update_on_labfolder ::
  "text_element \<Rightarrow> reply \<Rightarrow> error + (text_element \<times> printed list)" where
  "TextElement_update_on_labfolder self r =
     (if te_content self = '''' then Inr (self, [Line ''No text to write.''])
      else (let response = requests_put r;
                (status, out) = handle_response (te_type self) response False False
            in Inr (self, out)))"

subsection \<open>\<open>TableElement\<close>\<close>

definition TableElement_write_to_labfolder ::
  "table_element \<Rightarrow> string \<Rightarrow> bool \<Rightarrow> reply \<Rightarrow> error + (table_element \<times> printed list)" where
  "TableElement_write_to_labfolder self entry_id header r =
     (if entry_id = '''' \<and> tb_entry_id self = ''''
      then Inr (self, [Line ''No entry_id provided.''])
      else if tb_table self = None then Inr (self, [Line ''No table to write.''])
      else (case convert_pd_to_export self header of
              Inl err \<Rightarrow> Inl err
            | Inr (self1, table_content, out1) \<Rightarrow>
                if table_content = None
                then Inr (self1, out1 @ [Line ''Could not convert table to export format.''])
                else (let response = requests_post r;
                          (status, out2) = handle_response (tb_type self1) response False True
                      in if status = Some True
                         then (case response_json_id response of
                                 Inl err \<Rightarrow> Inl err
                               | Inr i \<Rightarrow> Inr (self1\<lparr>tb_element_id := i\<rparr>, out1 @ out2))
                         else Inr (self1, out1 @ out2))))"

definition TableElement_update_on_labfolder ::
  "table_element \<Rightarrow> bool \<Rightarrow> reply \<Rightarrow> error + (table_element \<times> printed list)" where
  "TableElement_update_on_labfolder self header r =
     (if tb_table self = None then Inr (self, [Line ''No table to write.''])
      else (case convert_pd_to_export self header of
              Inl err \<Rightarrow> Inl err
            | Inr (self1, table_content, out1) \<Rightarrow>
                if table_content = None
                then Inr (self1, out1 @ [Line ''Could not convert table to export format.''])
                else (let response = requests_put r;
                          (status, out2) = handle_response (tb_type self1) response False False
                      in Inr (self1, out1 @ out2))))"

subsection \<open>\<open>DataElementGroup\<close>\<close>

text \<open>The JSON value a \<open>to_dict\<close> method returns.\<close>

datatype json = JNone | JStr string | JList "json list" | JObj "(string \<times> json) list"

definition DescriptiveDataElement_to_dict :: "descriptive_data_element \<Rightarrow> json" where
  "DescriptiveDataElement_to_dict self =
     JObj [(''type'', JStr (dd_type self)), (''title'', JStr (dd_title self)),
           (''description'', JStr (dd_description self))]"

text \<open>
  \<open>DataElementGroup.to_dict\<close> calls \<open>child.to_dict()\<close> on every child, in order. The
  classes \<open>DataElement\<close>, \<open>FileElement\<close>, \<open>ImageElement\<close> and \<open>TextElement\<close> have no
  such method; \<open>TableElement.to_dict\<close> is called with its default \<open>in_place=True\<close>, so
  it changes the child and returns \<open>None\<close>. The result is the object after the call,
  the value returned and the lines printed.
\<close>

fun element_to_dict :: "element \<Rightarrow> error + (element \<times> json \<times> printed list)"
and group_to_dict :: "group \<Rightarrow> error + (group \<times> json \<times> printed list)"
and children_to_dict :: "element list \<Rightarrow> error + (element list \<times> json list \<times> printed list)"
where
  "element_to_dict (DescriptiveData d) =
     Inr (DescriptiveData d, DescriptiveDataElement_to_dict d, [])"
| "element_to_dict (Table t) =
     (case TableElement_to_dict t True of
        Inl err \<Rightarrow> Inl err
      | Inr (t', ret, out) \<Rightarrow> Inr (Table t', JNone, out))"
| "element_to_dict (Group g) =
     (case group_to_dict g of
        Inl err \<Rightarrow> Inl err
      | Inr (g', j, out) \<Rightarrow> Inr (Group g', j, out))"
| "element_to_dict (Data d) = Inl AttributeError"
| "element_to_dict (File f) = Inl AttributeError"
| "element_to_dict (Image i) = Inl AttributeError"
| "element_to_dict (Text t) = Inl AttributeError"
| "group_to_dict (DataElementGroup ty ti eid cs) =
     (case children_to_dict cs of
        Inl err \<Rightarrow> Inl err
      | Inr (cs', js, out) \<Rightarrow>
          Inr (DataElementGroup ty ti eid cs',
               JObj [(''type'', JStr ty), (''title'', JStr ti), (''children'', JList js)], out))"
| "children_to_dict [] = Inr ([], [], [])"
| "children_to_dict (c # cs) =
     (case element_to_dict c of
        Inl err \<Rightarrow> Inl err
      | Inr (c', j, out1) \<Rightarrow>
          (case children_to_dict cs of
             Inl err \<Rightarrow> Inl err
           | Inr (cs', js, out2) \<Rightarrow> Inr (c' # cs', j # js, out1 @ out2)))"

definition DataElementGroup_write_to_labfolder ::
  "group \<Rightarrow> string \<Rightarrow> reply \<Rightarrow> error + (group \<times> printed list)" where
  "DataElementGroup_write_to_labfolder self entry_id r =
     (if entry_id = '''' then Inr (self, [Line ''No entry_id provided.''])
      else (case group_to_dict self of
              Inl err \<Rightarrow> Inl err
            | Inr (self1, content, out1) \<Rightarrow>
                (let response = requests_post r;
                     (status, out2) = handle_response (grp_type self1) response False False
                 in Inr (self1, out1 @ out2))))"

definition DataElementGroup_update_on_labfolder ::
  "group \<Rightarrow> reply \<Rightarrow> error + (group \<times> printed list)" where
  "DataElementGroup_update_on_labfolder self r =
     (if grp_element_id self = '''' then Inr (self, [Line ''No data element group ID provided.''])
      else (case group_to_dict self of
              Inl err \<Rightarrow> Inl err
            | Inr (self1, content, out1) \<Rightarrow>
                (let response = requests_put r;
                     (status, out2) = handle_response (grp_type self1) response False False
                 in Inr (self1, out1 @ out2))))"

section \<open>\<open>parse_data_element\<close>\<close>

text \<open>
  The part of \<open>parse_data_element\<close> after the group case: one \<open>if\<close> per tag, each
  assigning \<open>return_element\<close>, then the diagnostic when nothing was assigned. Only the
  constructor of \<open>TableElement\<close> can raise or print.
\<close>

definition parse_leaf ::
  "user_info option \<Rightarrow> server \<Rightarrow> wire_record \<Rightarrow> error + (element option \<times> printed list)" where
  "parse_leaf user_info srv element =
     (let t = get_or (element_type element) '''';
          r0 = None;
          r1 = (if t = ''FILE''
                then Some (File (FileElement_init (get_or (rec_id element) ''''))) else r0);
          r2 = (if t = ''IMAGE''
                then Some (Image (ImageElement_init (get_or (rec_title element) '''')
                        (get_or (rec_id element) '''')
                        (get_or (rec_original_file_content_type element) ''image/png'')))
                else r1);
          r3 = (if t = ''TEXT''
                then Some (Text (TextElement_init (get_or (rec_content element) '''')
                        (get_or (rec_id element) '''')))
                else r2);
          r4 = (if t = ''DESCRIPTIVE_DATA''
                then Some (DescriptiveData (DescriptiveDataElement_init
                        (get_or (rec_title element) '''') (get_or (rec_id element) '''')
                        (get_or (rec_description element) '''')))
                else r3);
          r5 = (if t = ''DATA''
                then Some (Data (DataElement_init (get_or (rec_id element) '''')
                        (get_or (rec_description element) '''')))
                else r4)
      in case (if t = ''TABLE''
               then (case TableElement_init user_info srv (get_or (rec_id element) '''')
                            (get_or (rec_entry_id element) '''') (Some []) True True of
                       Inl err \<Rightarrow> Inl err
                     | Inr (tb, out) \<Rightarrow> Inr (Some (Table tb), out))
               else Inr (r5, [])) of
           Inl err \<Rightarrow> Inl err
         | Inr (return_element, out) \<Rightarrow>
             Inr (return_element,
                  out @ (if return_element = None then [Unknown_element_type element] else [])))"

text \<open>
  \<open>parse_data_element(element, user_info)\<close>; \<open>parse_children\<close> is its loop over
  \<open>element.get("children", [])\<close>, which adds a child to the group unless it is
  \<open>None\<close>. An absent key \<open>children\<close> is the empty list in \<open>rec_children\<close>.
\<close>

fun parse_data_element ::
  "user_info option \<Rightarrow> server \<Rightarrow> wire_record \<Rightarrow> error + (element option \<times> printed list)"
and parse_children ::
  "user_info option \<Rightarrow> server \<Rightarrow> wire_record list \<Rightarrow> error + (element list \<times> printed list)"
where
  "parse_data_element user_info srv (WireRecord t i ti c d oct e ch) =
     (if get_or t '''' = ''DATA_ELEMENT_GROUP''
      then (case parse_children user_info srv ch of
              Inl err \<Rightarrow> Inl err
            | Inr (cs, out) \<Rightarrow> Inr (Some (Group (DataElementGroup_init (get_or ti '''') cs)), out))
      else parse_leaf user_info srv (WireRecord t i ti c d oct e ch))"
| "parse_children user_info srv [] = Inr ([], [])"
| "parse_children user_info srv (child # rest) =
     (case parse_data_element user_info srv child of
        Inl err \<Rightarrow> Inl err
      | Inr (c, out1) \<Rightarrow>
          (case parse_children user_info srv rest of
             Inl err \<Rightarrow> Inl err
           | Inr (cs, out2) \<Rightarrow>
               Inr ((case c of None \<Rightarrow> cs | Some x \<Rightarrow> x # cs), out1 @ out2)))"

text \<open>
  The batch of \<open>Entry.get_entry\<close>:
  \<open>[parse_data_element(element, user_info) for element in self.elements]\<close>.
\<close>

fun parse_elements ::
  "user_info option \<Rightarrow> server \<Rightarrow> wire_record list \<Rightarrow> error + (element option list \<times> printed list)"
where
  "parse_elements user_info srv [] = Inr ([], [])"
| "parse_elements user_info srv (element # rest) =
     (case parse_data_element user_info srv element of
        Inl err \<Rightarrow> Inl err
      | Inr (c, out1) \<Rightarrow>
          (case parse_elements user_info srv rest of
             Inl err \<Rightarrow> Inl err
           | Inr (cs, out2) \<Rightarrow> Inr (c # cs, out1 @ out2)))"

section \<open>Notions used in the statements\<close>


text \<open>One sheet converted from tabular to wire and back.\<close>

definition roundtrip :: "bool \<Rightarrow> string \<Rightarrow> dataframe \<Rightarrow> error + dataframe" where
  "roundtrip header sheet df =
     (case export_sheet header sheet df of
        Inl err \<Rightarrow> Inl err
      | Inr w \<Rightarrow> table_to_pandas (dataTable w) header)"


definition infinite_cell :: "cell \<Rightarrow> bool" where
  "infinite_cell c \<longleftrightarrow> c = CPosInf \<or> c = CNegInf"

text \<open>
  A frame has the default index when its row labels are \<open>0 .. n - 1\<close> in order. It has
  no fully-empty row when every row holds a value that is not missing, and no
  fully-empty column when every column does.
\<close>

definition default_index :: "dataframe \<Rightarrow> bool" where
  "default_index df \<longleftrightarrow> index df = map int [0..<length (rows df)]"

definition no_empty_rows :: "dataframe \<Rightarrow> bool" where
  "no_empty_rows df \<longleftrightarrow> list_all (\<lambda>r. \<not> list_all isna r) (rows df)"

definition no_empty_columns :: "dataframe \<Rightarrow> bool" where
  "no_empty_columns df \<longleftrightarrow>
     list_all (\<lambda>j. list_ex (\<lambda>r. \<not> isna (r ! j)) (rows df)) [0..<length (columns df)]"

text \<open>
  The columns of a wire grid are the column keys of its rows in the order in which
  they are first seen. A column is null in every cell when each row either lacks the
  key or holds under it an entry without a value or with a missing value.
\<close>

definition grid_columns :: "grid \<Rightarrow> cell list" where
  "grid_columns g = union_keys (map snd g)"

definition null_entry :: "wire_entry \<Rightarrow> bool" where
  "null_entry e = (case get_value e of Inl err \<Rightarrow> False | Inr v \<Rightarrow> isna v)"

definition column_all_null :: "grid \<Rightarrow> cell \<Rightarrow> bool" where
  "column_all_null g c \<longleftrightarrow>
     list_all (\<lambda>(row, r). case map_of r c of None \<Rightarrow> True | Some e \<Rightarrow> null_entry e) g"

text \<open>The type tags \<open>parse_data_element\<close> knows, and the tag of each class of object.\<close>

definition recognized_tags :: "string set" where
  "recognized_tags =
     {''DATA_ELEMENT_GROUP'', ''FILE'', ''IMAGE'', ''TEXT'', ''DESCRIPTIVE_DATA'', ''DATA'',
      ''TABLE''}"

fun variant_tag :: "element \<Rightarrow> string" where
  "variant_tag (Data d) = ''DATA''"
| "variant_tag (DescriptiveData d) = ''DESCRIPTIVE_DATA''"
| "variant_tag (File f) = ''FILE''"
| "variant_tag (Image i) = ''IMAGE''"
| "variant_tag (Text t) = ''TEXT''"
| "variant_tag (Table t) = ''TABLE''"
| "variant_tag (Group g) = ''DATA_ELEMENT_GROUP''"

text \<open>The type tag of a wire record, as \<open>parse_data_element\<close> reads it. A record holds
  no table when it does not carry the tag \<open>TABLE\<close> and, for a group, no record below
  it does.\<close>

definition record_tag :: "wire_record \<Rightarrow> string" where
  "record_tag s = get_or (element_type s) ''''"

fun table_free :: "wire_record \<Rightarrow> bool" where
  "table_free (WireRecord t i ti c d oct e ch) =
     (if get_or t '''' = ''DATA_ELEMENT_GROUP'' then list_all table_free ch
      else get_or t '''' \<noteq> ''TABLE'')"

section \<open>Example inputs\<close>

definition created :: reply where
  "created = \<lparr>reply_status = 201, reply_id = Some ''42''\<rparr>"

definition server_error :: reply where
  "server_error = \<lparr>reply_status = 500, reply_id = None\<rparr>"

definition one_cell_frame :: dataframe where
  "one_cell_frame = \<lparr>index = [0], columns = [CStr ''a''], rows = [[CNum 1]]\<rparr>"

definition frame_table :: table_element where
  "frame_table =
     \<lparr>tb_type = ''TABLE'', tb_entry_id = ''e1'', tb_element_id = '''',
      tb_table = Some [(''S'', SFrame one_cell_frame)], tb_creation_date = '''',
      tb_owner_id = '''', tb_title = ''''\<rparr>"

definition logged_in :: user_info where
  "logged_in = \<lparr>api_address = ''https://labfolder.example/api/v2/'', user_id = Some ''1''\<rparr>"

text \<open>A sheet with a header row \<open>x\<close> and one data row \<open>1\<close>, and a server that holds it
  as the table with identifier 7.\<close>

definition small_sheet :: wire_sheet where
  "small_sheet =
     \<lparr>name = ''S'', rowCount = 2, columnCount = 1,
      dataTable = [(CStr ''0'', [(CStr ''0'', WDict [(''value'', CStr ''x'')])]),
                   (CStr ''1'', [(CStr ''0'', WDict [(''value'', CNum 1)])])]\<rparr>"

definition small_server :: server where
  "small_server i =
     (if i = ''7''
      then Inr \<lparr>tj_entry_id = ''e1'', tj_creation_date = ''2024-01-01'', tj_owner_id = ''1'',
                tj_title = ''t'', tj_sheets = [(''S'', SWire small_sheet)]\<rparr>
      else Inl RequestError)"

definition unloaded_table :: table_element where
  "unloaded_table =
     \<lparr>tb_type = ''TABLE'', tb_entry_id = '''', tb_element_id = ''7'', tb_table = Some [],
      tb_creation_date = '''', tb_owner_id = ''1'', tb_title = ''''\<rparr>"

text \<open>A sheet whose grid is empty.\<close>

definition empty_sheet :: wire_sheet where
  "empty_sheet = \<lparr>name = ''S'', rowCount = 0, columnCount = 0, dataTable = []\<rparr>"

text \<open>A grid whose first row is null, one whose first row holds a malformed entry, and
  the grid of the header example.\<close>

definition leading_null_grid :: grid where
  "leading_null_grid =
     [(CStr ''0'', [(CStr ''A'', WDict [(''value'', CNone)])]),
      (CStr ''1'', [(CStr ''A'', WDict [(''value'', CStr ''x'')])]),
      (CStr ''2'', [(CStr ''A'', WDict [(''value'', CNum 1)])])]"

definition malformed_grid :: grid where
  "malformed_grid =
     [(CStr ''0'', [(CStr ''A'', WScalar (CStr ''oops''))]),
      (CStr ''1'', [(CStr ''A'', WDict [(''value'', CNum 1)])])]"

definition header_grid :: grid where
  "header_grid =
     [(CNum 0, [(CStr ''A'', WDict [(''value'', CStr ''x'')]),
                (CStr ''B'', WDict [(''value'', CStr ''y'')])]),
      (CNum 1, [(CStr ''A'', WDict [(''value'', CNum 1)]),
                (CStr ''B'', WDict [(''value'', CNum 2)])])]"

text \<open>A 3 by 3 grid whose middle column \<open>C\<close> is null in every row.\<close>

definition grid_3x3 :: grid where
  "grid_3x3 =
     [(CStr ''0'', [(CStr ''A'', WDict [(''value'', CStr ''x'')]),
                    (CStr ''C'', WDict [(''value'', CNone)]),
                    (CStr ''B'', WDict [(''value'', CStr ''y'')])]),
      (CStr ''1'', [(CStr ''A'', WDict [(''value'', CNum 1)]),
                    (CStr ''C'', WDict []),
                    (CStr ''B'', WDict [(''value'', CNum 2)])]),
      (CStr ''2'', [(CStr ''A'', WDict [(''value'', CNum 3)]),
                    (CStr ''C'', WDict [(''value'', CNone)]),
                    (CStr ''B'', WDict [(''value'', CNum 4)])])]"

text \<open>The frame the 3 by 3 grid is converted to with header, and the sheet that frame
  is exported to with header.\<close>

definition frame_of_grid_3x3 :: dataframe where
  "frame_of_grid_3x3 =
     \<lparr>index = [0, 1], columns = [CStr ''x'', CStr ''y''],
      rows = [[CNum 1, CNum 2], [CNum 3, CNum 4]]\<rparr>"

definition sheet_of_grid_3x3 :: wire_sheet where
  "sheet_of_grid_3x3 =
     \<lparr>name = ''S'', rowCount = 3, columnCount = 2,
      dataTable =
        [(CNum 0, [(CNum 0, WDict [(''value'', CStr ''x'')]),
                   (CNum 1, WDict [(''value'', CStr ''y'')])]),
         (CNum 1, [(CNum 0, WDict [(''value'', CNum 1)]),
                   (CNum 1, WDict [(''value'', CNum 2)])]),
         (CNum 2, [(CNum 0, WDict [(''value'', CNum 3)]),
                   (CNum 1, WDict [(''value'', CNum 4)])])]\<rparr>"



definition inf_frame :: dataframe where
  "inf_frame = \<lparr>index = [0], columns = [CStr ''a'', CStr ''b''], rows = [[CPosInf, CNum 1]]\<rparr>"

text \<open>A table element that holds the empty sheet as fetched, one that holds a frame
  beside a dictionary that is not a wire sheet, and a group whose only child is the
  table with a frame.\<close>

definition empty_sheet_table :: table_element where
  "empty_sheet_table = frame_table\<lparr>tb_table := Some [(''S'', SWire empty_sheet)]\<rparr>"

definition mixed_table :: table_element where
  "mixed_table = frame_table\<lparr>tb_table := Some [(''A'', SFrame one_cell_frame), (''B'', SColumns [])]\<rparr>"

definition group_with_table :: group where
  "group_with_table = DataElementGroup_init ''g'' [Table frame_table]"

text \<open>Wire records: a well plate (a tag the parser does not know), a text, a data
  element and a group that holds the well plate and the data element.\<close>

definition well_plate :: wire_record where
  "well_plate = WireRecord (Some ''WELL_PLATE'') (Some ''2'') None None None None None []"
definition text_record :: wire_record where
  "text_record = WireRecord (Some ''TEXT'') (Some ''1'') None (Some ''hi'') None None None []"
definition data_record :: wire_record where
  "data_record = WireRecord (Some ''DATA'') (Some ''3'') None None (Some ''d'') None None []"
definition group_record :: wire_record where
  "group_record = WireRecord (Some ''DATA_ELEMENT_GROUP'') None (Some ''g'') None None None None [well_plate, data_record]"

text \<open>A server that holds the table 8, whose only sheet has an empty grid; the wire
  records of the tables 8, 7 and 9 and of a file.\<close>

definition empty_sheet_server :: server where
  "empty_sheet_server i =
     (if i = ''8''
      then Inr \<lparr>tj_entry_id = ''e1'', tj_creation_date = ''2024-01-01'', tj_owner_id = ''1'',
                tj_title = ''t'', tj_sheets = [(''S'', SWire empty_sheet)]\<rparr>
      else Inl RequestError)"

definition empty_table_record :: wire_record where
  "empty_table_record = WireRecord (Some ''TABLE'') (Some ''8'') None None None None (Some ''e1'') []"

definition small_table_record :: wire_record where
  "small_table_record = WireRecord (Some ''TABLE'') (Some ''7'') None None None None (Some ''e1'') []"

definition file_record :: wire_record where
  "file_record = WireRecord (Some ''FILE'') (Some ''4'') None None None None None []"

definition missing_table_record :: wire_record where
  "missing_table_record = WireRecord (Some ''TABLE'') (Some ''9'') None None None None (Some ''e1'') []"

section \<open>Notions used in the proofs\<close>

text \<open>The value a well-formed entry holds, the cells of a row whose entries are all
  well-formed, and that property of a row.\<close>

definition entry_value :: "wire_entry \<Rightarrow> cell" where
  "entry_value e = (case get_value e of Inl err \<Rightarrow> CNone | Inr v \<Rightarrow> v)"

definition row_cells :: "wire_row \<Rightarrow> (cell \<times> cell) list" where
  "row_cells r = map (\<lambda>(col, e). (col, entry_value e)) r"

definition well_formed_row :: "wire_row \<Rightarrow> bool" where
  "well_formed_row r \<longleftrightarrow> list_all (\<lambda>(col, e). \<exists>kvs. e = WDict kvs) r"

text \<open>The frame that is exported: the rows in the order of the export, under the header row
  when there is one.\<close>

definition export_rows :: "bool \<Rightarrow> dataframe \<Rightarrow> cell list list" where
  "export_rows header df = (if header then columns df # rows df else rows df)"

text \<open>A cell is ordinary when it is neither missing nor infinite. \<open>read_back\<close> is what a
  cell becomes when it is exported and converted back.\<close>

definition ordinary :: "cell \<Rightarrow> bool" where
  "ordinary c \<longleftrightarrow> \<not> isna c \<and> \<not> infinite_cell c"

definition read_back :: "cell \<Rightarrow> cell" where
  "read_back c = fillna_cell (replace_cell c)"

definition no_infinite_cells :: "dataframe \<Rightarrow> bool" where
  "no_infinite_cells df \<longleftrightarrow> list_all (\<lambda>r. list_all (\<lambda>c. \<not> infinite_cell c) r) (rows df)"

text \<open>The column keys \<open>0 .. m - 1\<close> of an emitted grid.\<close>

definition column_keys :: "nat \<Rightarrow> cell list" where
  "column_keys m = map (\<lambda>j. CNum (int j)) [0..<m]"

section \<open>The tabular form of a grid\<close>

text \<open>
  A grid is well-formed when every column entry of every row is a dictionary. The cell
  of a row under a column key is the value of the entry, and missing when the row has
  no such key or the entry holds no value or a missing one. A row is null when its cell
  is missing under every column of the grid. The tabular form keeps the columns and the
  rows that are not null, in their order: its rows are the kept rows, each with its
  cells under the kept columns.
\<close>

definition well_formed_grid :: "grid \<Rightarrow> bool" where
  "well_formed_grid g \<longleftrightarrow> list_all (\<lambda>(row, r). well_formed_row r) g"

definition cell_at :: "wire_row \<Rightarrow> cell \<Rightarrow> cell" where
  "cell_at r c = (case map_of r c of None \<Rightarrow> CNaN | Some e \<Rightarrow> fillna_cell (entry_value e))"

definition row_all_null :: "grid \<Rightarrow> wire_row \<Rightarrow> bool" where
  "row_all_null g r \<longleftrightarrow> list_all (\<lambda>c. isna (cell_at r c)) (grid_columns g)"

definition kept_columns :: "grid \<Rightarrow> cell list" where
  "kept_columns g = filter (\<lambda>c. \<not> column_all_null g c) (grid_columns g)"

definition kept_rows :: "grid \<Rightarrow> wire_row list" where
  "kept_rows g = filter (\<lambda>r. \<not> row_all_null g r) (map snd g)"

definition tabular_rows :: "grid \<Rightarrow> cell list list" where
  "tabular_rows g = map (\<lambda>r. map (cell_at r) (kept_columns g)) (kept_rows g)"

text \<open>A grid whose only column is null.\<close>

definition null_only_grid :: grid where
  "null_only_grid = [(CStr ''0'', [(CStr ''A'', WDict [(''value'', CNone)])])]"


section \<open>Properties of the element operations\<close>

text \<open>
  C1. The claim: when \<open>write_to_labfolder\<close> sends a new record and the API answers with
  status 201, the identifier attribute of the object is set to the identifier in the
  response body. The code does not do this. \<open>_handle_response\<close> compares the response
  object, not its status code, with 201, so it reports a failure for every answer and
  no identifier is stored: a \<open>DataElement\<close>, a \<open>TextElement\<close>, a \<open>TableElement\<close> and a
  \<open>DataElementGroup\<close> written with the answer 201 and the identifier 42 are returned
  unchanged, each with the failure line.
\<close>

theorem write_to_labfolder_201_keeps_id:
  "DataElement_write_to_labfolder (DataElement_init '''' ''d'') ''e1'' created
     = Inr (DataElement_init '''' ''d'',
            [Line ''DATA could not be written to Labfolder. Status code: 201''])
   \<and> TextElement_write_to_labfolder (TextElement_init ''c'' '''') ''e1'' created
     = Inr (TextElement_init ''c'' '''',
            [Line ''TEXT could not be written to Labfolder. Status code: 201''])
   \<and> TableElement_write_to_labfolder frame_table ''e1'' True created
     = Inr (frame_table, [Line ''TABLE could not be written to Labfolder. Status code: 201''])
   \<and> DataElementGroup_write_to_labfolder (DataElementGroup_init ''g'' []) ''e1'' created
     = Inr (DataElementGroup_init ''g'' [],
            [Line ''DATA_ELEMENT_GROUP could not be written to Labfolder. Status code: 201''])"
proof -
  have d: "DataElement_write_to_labfolder (DataElement_init '''' ''d'') ''e1'' created
     = Inr (DataElement_init '''' ''d'',
            [Line ''DATA could not be written to Labfolder. Status code: 201''])"
    by code_simp
  have t: "TextElement_write_to_labfolder (TextElement_init ''c'' '''') ''e1'' created
     = Inr (TextElement_init ''c'' '''',
            [Line ''TEXT could not be written to Labfolder. Status code: 201''])"
    by code_simp
  have b: "TableElement_write_to_labfolder frame_table ''e1'' True created
     = Inr (frame_table, [Line ''TABLE could not be written to Labfolder. Status code: 201''])"
    by code_simp
  have g: "DataElementGroup_write_to_labfolder (DataElementGroup_init ''g'' []) ''e1'' created
     = Inr (DataElementGroup_init ''g'' [],
            [Line ''DATA_ELEMENT_GROUP could not be written to Labfolder. Status code: 201''])"
    by code_simp
  from d t b g show ?thesis by (intro conjI)
qed

text \<open>
  Every answer is handled as a failure: for a request sent with POST or PUT the status
  returned is \<open>False\<close> and the line printed names the status code.
\<close>

lemma handle_response_post:
  "handle_response ty (requests_post r) False rs =
     (if rs then Some False else None,
      [Line (ty @ '' could not be written to Labfolder. Status code: '' @ str_int (reply_status r))])"
  by (simp add: handle_response_def requests_post_def response_eq_def)

lemma handle_response_put:
  "handle_response ty (requests_put r) False rs =
     (if rs then Some False else None,
      [Line (ty @ '' could not be updated on Labfolder. Status code: '' @ str_int (reply_status r))])"
  by (simp add: handle_response_def requests_put_def response_eq_def)

text \<open>
  The operations of \<open>DataElement\<close> and \<open>TextElement\<close> that send a request return the
  object as it was and print the failure line with the status code.
\<close>

lemma DataElement_write_unchanged:
  "entry_id \<noteq> '''' \<Longrightarrow>
   DataElement_write_to_labfolder self entry_id r =
     Inr (self, [Line (de_type self @ '' could not be written to Labfolder. Status code: ''
                       @ str_int (reply_status r))])"
  by (simp add: DataElement_write_to_labfolder_def handle_response_post)

lemma DataElement_update_unchanged:
  "de_description self \<noteq> '''' \<Longrightarrow>
   DataElement_update_on_labfolder self r =
     Inr (self, [Line (de_type self @ '' could not be updated on Labfolder. Status code: ''
                       @ str_int (reply_status r))])"
  by (simp add: DataElement_update_on_labfolder_def handle_response_put)

lemma TextElement_write_unchanged:
  "entry_id \<noteq> '''' \<Longrightarrow>
   TextElement_write_to_labfolder self entry_id r =
     Inr (self, [Line (te_type self @ '' could not be written to Labfolder. Status code: ''
                       @ str_int (reply_status r))])"
  by (simp add: TextElement_write_to_labfolder_def handle_response_post)

lemma TextElement_update_unchanged:
  "te_content self \<noteq> '''' \<Longrightarrow>
   TextElement_update_on_labfolder self r =
     Inr (self, [Line (te_type self @ '' could not be updated on Labfolder. Status code: ''
                       @ str_int (reply_status r))])"
  by (simp add: TextElement_update_on_labfolder_def handle_response_put)

text \<open>
  \<open>table_to_pd\<close> and \<open>convert_pd_to_export\<close> never change the object, so the
  operations of \<open>TableElement\<close> return it as it was whenever they return.
\<close>

lemma table_to_pd_unchanged:
  "table_to_pd self header in_place = Inr (self', ret, out) \<Longrightarrow> self' = self"
  by (auto simp: table_to_pd_def split: option.splits if_splits sum.splits)

lemma table_to_pd_in_place_returns_None:
  "table_to_pd self header True = Inr (self', ret, out) \<Longrightarrow> ret = None"
  by (auto simp: table_to_pd_def split: option.splits if_splits sum.splits)

lemma convert_pd_to_export_unchanged:
  "convert_pd_to_export self header = Inr (self', content, out) \<Longrightarrow> self' = self"
  by (auto simp: convert_pd_to_export_def split: option.splits if_splits sum.splits
           dest: table_to_pd_unchanged)

lemma TableElement_write_unchanged:
  "TableElement_write_to_labfolder self entry_id header r = Inr (self', out) \<Longrightarrow> self' = self"
  by (auto simp: TableElement_write_to_labfolder_def handle_response_post
           split: option.splits if_splits sum.splits dest: convert_pd_to_export_unchanged)

lemma TableElement_update_unchanged:
  "TableElement_update_on_labfolder self header r = Inr (self', out) \<Longrightarrow> self' = self"
  by (auto simp: TableElement_update_on_labfolder_def handle_response_put
           split: option.splits if_splits sum.splits dest: convert_pd_to_export_unchanged)

text \<open>
  C8. The claim: a write or update operation that receives a status outside 2xx is
  aborted, reports the failure with the status code and leaves every field of the
  object in its prior state. The operations of \<open>DataElement\<close>, \<open>TextElement\<close> and
  \<open>TableElement\<close> do (the lemmas above). \<open>DataElementGroup.write_to_labfolder\<close> does
  not: it builds its payload with \<open>to_dict\<close>, which calls \<open>TableElement.to_dict\<close> on
  a table child with the default \<open>in_place=True\<close> and so replaces the child's frames
  by dictionaries before the request is sent. A group whose child holds a frame,
  written with the answer 500, reports the failure and is left with a changed child.
\<close>

theorem group_write_failure_changes_child:
  "DataElementGroup_write_to_labfolder group_with_table ''e1'' server_error
     = Inr (DataElementGroup_init ''g''
              [Table (frame_table\<lparr>tb_table := Some [(''S'', SColumns [(CStr ''a'', [(0, CNum 1)])])]\<rparr>)],
            [Line ''DATA_ELEMENT_GROUP could not be written to Labfolder. Status code: 500''])
   \<and> DataElementGroup_init ''g''
         [Table (frame_table\<lparr>tb_table := Some [(''S'', SColumns [(CStr ''a'', [(0, CNum 1)])])]\<rparr>)]
       \<noteq> group_with_table"
proof -
  have run: "DataElementGroup_write_to_labfolder group_with_table ''e1'' server_error
     = Inr (DataElementGroup_init ''g''
              [Table (frame_table\<lparr>tb_table := Some [(''S'', SColumns [(CStr ''a'', [(0, CNum 1)])])]\<rparr>)],
            [Line ''DATA_ELEMENT_GROUP could not be written to Labfolder. Status code: 500''])"
    by code_simp
  have changed: "DataElementGroup_init ''g''
         [Table (frame_table\<lparr>tb_table := Some [(''S'', SColumns [(CStr ''a'', [(0, CNum 1)])])]\<rparr>)]
       \<noteq> group_with_table"
    by (simp add: group_with_table_def DataElementGroup_init_def frame_table_def)
  from run changed show ?thesis by (intro conjI)
qed

section \<open>Properties of the table element\<close>

text \<open>
  C2. The claim: after \<open>load_table\<close> with \<open>to_pd=True\<close> the attribute \<open>table\<close> holds one
  frame per sheet. The code does not do this: \<open>table_to_pd\<close> binds the converted sheets
  to a local name and returns, so \<open>self.table\<close> keeps the wire sheets as fetched. For
  the table 7 of the example server the attribute holds the wire sheet after the call,
  while the conversion of that sheet is the frame with the column \<open>x\<close> and the row \<open>1\<close>.
\<close>

theorem load_table_keeps_wire_sheets:
  "load_table unloaded_table (Some logged_in) small_server True True
     = Inr (unloaded_table\<lparr>tb_entry_id := ''e1'', tb_creation_date := ''2024-01-01'',
              tb_owner_id := ''1'', tb_title := ''t'',
              tb_table := Some [(''S'', SWire small_sheet)]\<rparr>, [])
   \<and> \<not> is_frame (SWire small_sheet)
   \<and> table_to_pandas (dataTable small_sheet) True
     = Inr \<lparr>index = [0], columns = [CStr ''x''], rows = [[CNum 1]]\<rparr>"
proof -
  have run: "load_table unloaded_table (Some logged_in) small_server True True
     = Inr (unloaded_table\<lparr>tb_entry_id := ''e1'', tb_creation_date := ''2024-01-01'',
              tb_owner_id := ''1'', tb_title := ''t'',
              tb_table := Some [(''S'', SWire small_sheet)]\<rparr>, [])"
    by code_simp
  have conv: "table_to_pandas (dataTable small_sheet) True
     = Inr \<lparr>index = [0], columns = [CStr ''x''], rows = [[CNum 1]]\<rparr>"
    by code_simp
  from run conv show ?thesis by simp
qed

text \<open>
  C5. The claim: when the sheets are not frames and cannot be converted,
  \<open>convert_pd_to_export\<close> returns \<open>None\<close> and raises nothing. The code catches
  \<open>TypeError\<close>, \<open>ValueError\<close>, \<open>KeyError\<close> and \<open>AttributeError\<close> only, and only around
  \<open>table_to_pd\<close>. A sheet with an empty grid makes \<open>df.iloc[0]\<close> raise \<open>IndexError\<close>,
  which leaves the method; a table that holds a frame beside a dictionary skips the
  conversion and raises \<open>AttributeError\<close> in the export loop.
\<close>

theorem convert_pd_to_export_raises:
  "convert_pd_to_export empty_sheet_table True = Inl IndexError
   \<and> convert_pd_to_export mixed_table True = Inl AttributeError"
proof -
  have a: "convert_pd_to_export empty_sheet_table True = Inl IndexError"
    by code_simp
  have b: "convert_pd_to_export mixed_table True = Inl AttributeError"
    by code_simp
  from a b show ?thesis by (intro conjI)
qed

text \<open>
  Where the conversion raises one of the four caught exceptions and no sheet is a
  frame, the method does return \<open>None\<close> and the object as it was.
\<close>

lemma convert_pd_to_export_caught:
  assumes "tb_table self = Some t" and "\<not> list_ex is_frame (map snd t)" and "t \<noteq> []"
    and "sheets_to_pandas t True = Inl err" and "caught err"
  shows "convert_pd_to_export self header = Inr (self, None, [Conversion_failed err])"
proof -
  from assms(2,3) have "\<not> list_all is_frame (map snd t)"
    by (cases t) (auto simp: list_ex_iff list_all_iff)
  with assms show ?thesis
    by (simp add: convert_pd_to_export_def table_to_pd_def)
qed

section \<open>Properties of the conversion from wire to tabular\<close>

text \<open>
  C4. The claim: a row whose lookup raises, for example because an entry is not a
  dictionary, becomes an all-null row over its own column keys and the other rows
  are converted. The code does not do this: \<open>.get\<close> on an entry that is not a
  dictionary raises \<open>AttributeError\<close>, the handler catches \<open>KeyError\<close> only, and the
  conversion of the whole sheet ends with the exception, with and without header.
\<close>

theorem malformed_entry_raises:
  "table_to_pandas malformed_grid False = Inl AttributeError
   \<and> table_to_pandas malformed_grid True = Inl AttributeError"
proof -
  have a: "table_to_pandas malformed_grid False = Inl AttributeError"
    by code_simp
  have b: "table_to_pandas malformed_grid True = Inl AttributeError"
    by code_simp
  from a b show ?thesis by (intro conjI)
qed

text \<open>The comprehension over a row never raises \<open>KeyError\<close>, so the handler is never
  entered.\<close>

lemma row_values_error:
  "row_values r = Inl err \<Longrightarrow> err = AttributeError"
proof (induction r)
  case Nil
  then show ?case by simp
next
  case (Cons a r)
  obtain col e where a: "a = (col, e)" by (cases a)
  show ?case
  proof (cases e)
    case (WDict kvs)
    with Cons a show ?thesis by (auto split: sum.splits)
  next
    case (WScalar c)
    with Cons a show ?thesis by simp
  qed
qed

lemma build_row_eq_row_values:
  "build_row r = row_values r"
proof (cases "row_values r")
  case (Inl err)
  then have "err = AttributeError" by (rule row_values_error)
  with Inl show ?thesis by (simp add: build_row_def)
next
  case (Inr vs)
  then show ?thesis by (simp add: build_row_def)
qed

text \<open>
  C6. The claim: with \<open>header=true\<close> the row at position 0 after pruning supplies the
  column names, that row is removed and the others are re-indexed from 0. The code
  takes the names from the row at position 0 (\<open>df.iloc[0]\<close>) but removes the row
  labelled 0 (\<open>df.drop(0)\<close>), and pruning keeps the labels: when the first row of the
  sheet is null and pruned, no row is labelled 0 and the conversion raises \<open>KeyError\<close>.
\<close>

theorem header_after_pruned_first_row_raises:
  "table_to_pandas leading_null_grid True = Inl KeyError"
  by code_simp

text \<open>The example of the specification, whose first row is not pruned, is converted as
  described.\<close>

lemma header_example:
  "table_to_pandas header_grid True
     = Inr \<lparr>index = [0], columns = [CStr ''x'', CStr ''y''], rows = [[CNum 1, CNum 2]]\<rparr>"
  by code_simp

section \<open>Pruning of null columns\<close>

text \<open>When the rows of a grid are collected without an exception, every entry is a
  dictionary and the collected rows are the cells of the wire rows.\<close>

lemma row_values_Inr:
  "row_values r = Inr vs \<Longrightarrow> vs = row_cells r \<and> well_formed_row r"
proof (induction r arbitrary: vs)
  case Nil
  then show ?case by (simp add: row_cells_def well_formed_row_def)
next
  case (Cons a r)
  obtain col e where a: "a = (col, e)" by (cases a)
  show ?case
  proof (cases e)
    case (WDict kvs)
    with Cons.prems a obtain vs' where vs': "row_values r = Inr vs'"
      and vs: "vs = (col, entry_value e) # vs'"
      by (auto simp: entry_value_def split: sum.splits)
    from Cons.IH[OF vs'] vs a WDict show ?thesis
      by (simp add: row_cells_def well_formed_row_def)
  next
    case (WScalar c)
    with Cons.prems a show ?thesis by simp
  qed
qed

lemma row_values_well_formed:
  "well_formed_row r \<Longrightarrow> row_values r = Inr (row_cells r)"
  by (induction r) (auto simp: well_formed_row_def row_cells_def entry_value_def)

lemma collect_rows_Inr:
  "collect_rows g = Inr data \<Longrightarrow>
     data = map (\<lambda>(row, r). row_cells r) g \<and> list_all (\<lambda>(row, r). well_formed_row r) g"
proof (induction g arbitrary: data)
  case Nil
  then show ?case by simp
next
  case (Cons a g)
  obtain row r where a: "a = (row, r)" by (cases a)
  from Cons.prems a obtain d ds where d: "row_values r = Inr d"
    and ds: "collect_rows g = Inr ds" and data: "data = d # ds"
    by (auto simp: build_row_eq_row_values split: sum.splits)
  from row_values_Inr[OF d] Cons.IH[OF ds] data a show ?case by simp
qed

lemma collect_rows_well_formed:
  "list_all (\<lambda>(row, r). well_formed_row r) g \<Longrightarrow>
     collect_rows g = Inr (map (\<lambda>(row, r). row_cells r) g)"
  by (induction g) (auto simp: build_row_eq_row_values row_values_well_formed)

lemma union_keys_row_cells:
  "union_keys (map (\<lambda>(row, r). row_cells r) g) = grid_columns g"
proof -
  have "map (map fst) (map (\<lambda>(row, r). row_cells r) g) = map (map fst) (map snd g)"
    by (induction g) (auto simp: row_cells_def)
  then show ?thesis unfolding union_keys_def grid_columns_def by (simp only:)
qed

lemma map_of_row_cells:
  "map_of (row_cells r) c = map_option entry_value (map_of r c)"
  by (induction r) (auto simp: row_cells_def)

lemma select_map_nth:
  "select (map (\<lambda>j. Q (xs ! j)) [0..<length xs]) xs = filter Q xs"
proof -
  have "map (\<lambda>j. Q (xs ! j)) [0..<length xs] = map Q xs"
    by (rule nth_equalityI) simp_all
  moreover have "map snd (filter fst (zip (map Q xs) xs)) = filter Q xs"
    by (induction xs) auto
  ultimately show ?thesis by (simp add: select_def)
qed

lemma length_select:
  "length xs = length keep \<Longrightarrow> length (select keep xs) = length (filter (\<lambda>b. b) keep)"
  by (induction xs keep rule: list_induct2) (auto simp: select_def)

lemma map_snd_filter_zip:
  "length is = length rs \<Longrightarrow>
     map snd (filter (\<lambda>(i, r). Q r) (zip is rs)) = filter Q rs"
  by (induction "is" rs rule: list_induct2) auto

text \<open>The rows and columns of the frame after null-filling and the pruning of rows.\<close>

lemma rows_dropna_rows_fillna:
  "rows (dropna_rows (fillna (DataFrame data))) =
     filter (\<lambda>r. \<not> list_all isna r) (map (\<lambda>d. map fillna_cell (record_row (union_keys data) d)) data)"
  by (simp add: dropna_rows_def fillna_def DataFrame_def Let_def map_snd_filter_zip comp_def)

lemma columns_dropna_rows_fillna:
  "columns (dropna_rows (fillna (DataFrame data))) = union_keys data"
  by (simp add: dropna_rows_def fillna_def DataFrame_def Let_def)

lemma isna_fillna_cell [simp]: "isna (fillna_cell c) = isna c"
  by (cases c) auto

lemma all_null_filter_rows:
  assumes "\<forall>r \<in> set rs. j < length r"
  shows "list_all (\<lambda>r. isna (r ! j)) (filter (\<lambda>r. \<not> list_all isna r) rs)
         = list_all (\<lambda>r. isna (r ! j)) rs"
  using assms by (induction rs) (auto simp: list_all_iff)

lemma isna_record_row:
  assumes "j < length cols" and "well_formed_row r"
  shows "isna (record_row cols (row_cells r) ! j)
         = (case map_of r (cols ! j) of None \<Rightarrow> True | Some e \<Rightarrow> null_entry e)"
proof -
  have "\<And>e. map_of r (cols ! j) = Some e \<Longrightarrow> null_entry e = isna (entry_value e)"
  proof -
    fix e assume "map_of r (cols ! j) = Some e"
    then have "(cols ! j, e) \<in> set r" by (rule map_of_SomeD)
    with assms(2) obtain kvs where "e = WDict kvs"
      by (auto simp: well_formed_row_def list_all_iff)
    then show "null_entry e = isna (entry_value e)"
      by (simp add: null_entry_def entry_value_def)
  qed
  with assms(1) show ?thesis
    by (auto simp: record_row_def map_of_row_cells split: option.splits)
qed

lemma column_mask_pruned:
  assumes wf: "list_all (\<lambda>(row, r). well_formed_row r) g"
    and data: "data = map (\<lambda>(row, r). row_cells r) g"
  shows "column_mask (dropna_rows (fillna (DataFrame data)))
         = map (\<lambda>j. \<not> column_all_null g (grid_columns g ! j)) [0..<length (grid_columns g)]"
proof -
  let ?cols = "grid_columns g"
  have cols: "union_keys data = ?cols" by (simp add: data union_keys_row_cells)
  let ?rs = "map (\<lambda>d. map fillna_cell (record_row ?cols d)) data"
  have len: "\<forall>r \<in> set ?rs. length r = length ?cols"
    by (auto simp: record_row_def)
  have "\<And>j. j < length ?cols \<Longrightarrow>
      list_all (\<lambda>r. isna (r ! j)) (filter (\<lambda>r. \<not> list_all isna r) ?rs)
      = column_all_null g (?cols ! j)"
  proof -
    fix j assume j: "j < length ?cols"
    with len have "\<forall>r \<in> set ?rs. j < length r" by simp
    then have "list_all (\<lambda>r. isna (r ! j)) (filter (\<lambda>r. \<not> list_all isna r) ?rs)
        = list_all (\<lambda>r. isna (r ! j)) ?rs" by (rule all_null_filter_rows)
    also have "\<dots> = list_all (\<lambda>(row, r). isna (record_row ?cols (row_cells r) ! j)) g"
      using j by (auto simp: data list_all_iff record_row_def)
    also have "\<dots> = column_all_null g (?cols ! j)"
    proof -
      have pt: "\<And>row r. (row, r) \<in> set g \<Longrightarrow>
          isna (record_row ?cols (row_cells r) ! j)
          = (case map_of r (?cols ! j) of None \<Rightarrow> True | Some e \<Rightarrow> null_entry e)"
        using wf j by (intro isna_record_row) (auto simp: list_all_iff)
      show ?thesis
        by (auto simp: column_all_null_def list_all_iff pt)
    qed
    finally show "list_all (\<lambda>r. isna (r ! j)) (filter (\<lambda>r. \<not> list_all isna r) ?rs)
      = column_all_null g (?cols ! j)" .
  qed
  then show ?thesis
    by (simp add: column_mask_def rows_dropna_rows_fillna columns_dropna_rows_fillna cols)
qed

lemma columns_pruned:
  assumes "collect_rows g = Inr data"
  shows "columns (dropna_columns (dropna_rows (fillna (DataFrame data))))
         = filter (\<lambda>c. \<not> column_all_null g c) (grid_columns g)"
proof -
  from collect_rows_Inr[OF assms] have data: "data = map (\<lambda>(row, r). row_cells r) g"
    and wf: "list_all (\<lambda>(row, r). well_formed_row r) g" by simp_all
  have cols: "union_keys data = grid_columns g" by (simp add: data union_keys_row_cells)
  show ?thesis
    by (simp add: dropna_columns_def column_mask_pruned[OF wf data]
        columns_dropna_rows_fillna cols
        select_map_nth[of "\<lambda>c. \<not> column_all_null g c" "grid_columns g"])
qed

lemma rectangular_pruned:
  "rectangular (dropna_columns (dropna_rows (fillna (DataFrame data))))"
proof -
  let ?F = "dropna_rows (fillna (DataFrame data))"
  have len: "\<forall>r \<in> set (rows ?F). length r = length (columns ?F)"
    by (auto simp: rows_dropna_rows_fillna columns_dropna_rows_fillna record_row_def)
  have m: "length (column_mask ?F) = length (columns ?F)"
    by (simp add: column_mask_def)
  have idx: "length (index ?F) = length (rows ?F)"
    by (simp add: dropna_rows_def Let_def)
  from len m have "\<forall>r \<in> set (rows ?F).
      length (select (column_mask ?F) r) = length (select (column_mask ?F) (columns ?F))"
    by (simp add: length_select)
  with idx show ?thesis
    by (simp add: rectangular_def dropna_columns_def list_all_iff)
qed

lemma table_to_pandas_columns_length:
  assumes "table_to_pandas g header = Inr df"
  shows "length (columns df) = length (filter (\<lambda>c. \<not> column_all_null g c) (grid_columns g))"
proof -
  from assms obtain data where data: "collect_rows g = Inr data"
    by (auto simp: table_to_pandas_def split: sum.splits)
  let ?P = "dropna_columns (dropna_rows (fillna (DataFrame data)))"
  have rect: "rectangular ?P" by (rule rectangular_pruned)
  have "length (columns df) = length (columns ?P)"
  proof (cases header)
    case False
    with assms data show ?thesis
      by (auto simp: table_to_pandas_def Let_def sort_index_def reset_index_def)
  next
    case True
    with assms data obtain df' where h: "take_header ?P = Inr df'"
      and df: "df = reset_index (sort_index df')"
      by (auto simp: table_to_pandas_def Let_def split: sum.splits)
    from h obtain r rest where r: "rows ?P = r # rest" and c: "columns df' = r"
      by (auto simp: take_header_def iloc0_def drop_label_def Let_def split: list.splits if_splits)
    from rect r have "length r = length (columns ?P)"
      by (simp add: rectangular_def)
    with c df show ?thesis by (simp add: sort_index_def reset_index_def Let_def)
  qed
  with columns_pruned[OF data] show ?thesis by simp
qed

lemma columnCount_export_sheet:
  "export_sheet header sheet df = Inr w \<Longrightarrow> columnCount w = length (columns df)"
  by (auto simp: export_sheet_def Let_def shape_def reset_index_def sort_index_def
      add_header_row_def loc_set_def split: if_splits sum.splits)

lemma table_to_pandas_without_header_returns:
  assumes "list_all (\<lambda>(row, r). well_formed_row r) g"
  shows "\<exists>df. table_to_pandas g False = Inr df"
  using collect_rows_well_formed[OF assms] by (simp add: table_to_pandas_def)


section \<open>The header row when the first row survives\<close>

text \<open>
  Pruning leaves the labels of the rows in increasing order. When the row at position 0
  of the pruned frame still carries the label 0, that is, when the first row of the
  sheet was not pruned, the conversion with header takes the names from that row,
  removes it and re-indexes the other rows from 0.
\<close>

lemma index_pruned_strictly_sorted:
  "sorted_wrt (<) (index (dropna_columns (dropna_rows (fillna (DataFrame data)))))"
proof -
  let ?rs = "rows (fillna (DataFrame data))"
  let ?ix = "map int [0..<length data]"
  have "sorted_wrt (<) ?ix"
    by (simp add: sorted_wrt_iff_nth_less)
  moreover have "length ?ix = length ?rs" by (simp add: fillna_def DataFrame_def)
  ultimately have "sorted_wrt (<) (map fst (zip ?ix ?rs))" by simp
  then have "sorted_wrt (<) (map fst (filter (\<lambda>(i, r). \<not> list_all isna r) (zip ?ix ?rs)))"
    by (simp only: sorted_wrt_map sorted_wrt_filter)
  then show ?thesis
    by (simp add: dropna_columns_def dropna_rows_def fillna_def DataFrame_def Let_def)
qed

lemma header_from_first_row:
  assumes "collect_rows g = Inr data"
    and P: "P = dropna_columns (dropna_rows (fillna (DataFrame data)))"
    and rs: "rows P = names # rest" and ix: "index P = 0 # labels"
  shows "table_to_pandas g True
           = Inr \<lparr>index = map int [0..<length rest], columns = names, rows = rest\<rparr>"
proof -
  have "rectangular P" unfolding P by (rule rectangular_pruned)
  with rs ix have len: "length labels = length rest" by (simp add: rectangular_def)
  have "sorted_wrt (<) (index P)" unfolding P by (rule index_pruned_strictly_sorted)
  with ix have pos: "\<forall>l \<in> set labels. 0 < l" and srt: "sorted_wrt (<) labels" by simp_all
  from pos have "filter (\<lambda>(i, r). i \<noteq> 0) (zip labels rest) = zip labels rest"
    by (intro filter_True) (auto dest!: set_zip_leftD)
  with rs ix len have th: "take_header P = Inr (P\<lparr>index := labels, columns := names, rows := rest\<rparr>)"
    by (simp add: take_header_def iloc0_def drop_label_def)
  from srt have "sorted labels" by (rule strict_sorted_imp_sorted)
  with len have "sorted (map fst (zip labels rest))" by simp
  then have "sort_key fst (zip labels rest) = zip labels rest" by (rule sort_key_id_if_sorted)
  with len have so: "sort_index (P\<lparr>index := labels, columns := names, rows := rest\<rparr>)
      = P\<lparr>index := labels, columns := names, rows := rest\<rparr>"
    by (simp add: sort_index_def)
  from assms(1) th so show ?thesis
    by (simp add: table_to_pandas_def P[symmetric] reset_index_def)
qed

section \<open>The frame a grid is converted to\<close>

lemma fillna_record_row:
  "map fillna_cell (record_row cols (row_cells r)) = map (cell_at r) cols"
  by (auto simp: record_row_def map_of_row_cells cell_at_def split: option.splits)

lemma select_map_nth_map:
  "select (map (\<lambda>j. Q (xs ! j)) [0..<length xs]) (map f xs) = map f (filter Q xs)"
proof -
  have "map (\<lambda>j. Q (xs ! j)) [0..<length xs] = map Q xs"
    by (rule nth_equalityI) simp_all
  moreover have "map snd (filter fst (zip (map Q xs) (map f xs))) = map f (filter Q xs)"
    by (induction xs) auto
  ultimately show ?thesis by (simp add: select_def)
qed

lemma sort_index_sorted:
  assumes "sorted (index df)" and "length (index df) = length (rows df)"
  shows "sort_index df = df"
proof -
  let ?z = "zip (index df) (rows df)"
  from assms(2) have fst: "map fst ?z = index df" and snd: "map snd ?z = rows df" by simp_all
  from assms(1) have "sorted (map fst ?z)" by (simp only: fst)
  then have "sort_key fst ?z = ?z" by (rule sort_key_id_if_sorted)
  with fst snd show ?thesis by (simp add: sort_index_def)
qed

lemma export_sheet_returns:
  assumes "header \<Longrightarrow> columns df \<noteq> []"
  shows "\<exists>w. export_sheet header sheet df = Inr w"
  using assms
  by (cases header) (auto simp: export_sheet_def add_header_row_def loc_set_def Let_def)

text \<open>The frame after null-filling and pruning, for a grid whose entries are dictionaries.\<close>

lemma pruned_frame:
  assumes wf: "well_formed_grid g"
  defines "data \<equiv> map (\<lambda>(row, r). row_cells r) g"
  defines "P \<equiv> dropna_columns (dropna_rows (fillna (DataFrame data)))"
  shows "collect_rows g = Inr data"
    and "columns P = kept_columns g"
    and "rows P = tabular_rows g"
proof -
  from wf have wf': "list_all (\<lambda>(row, r). well_formed_row r) g"
    by (simp add: well_formed_grid_def)
  show cr: "collect_rows g = Inr data"
    unfolding data_def by (rule collect_rows_well_formed[OF wf'])
  show "columns P = kept_columns g"
    unfolding P_def kept_columns_def by (rule columns_pruned[OF cr])
  let ?cols = "grid_columns g"
  have cols: "union_keys data = ?cols" by (simp add: data_def union_keys_row_cells)
  have "map (\<lambda>d. map fillna_cell (record_row ?cols d)) data
      = map (\<lambda>r. map (cell_at r) ?cols) (map snd g)"
    by (auto simp: data_def fillna_record_row)
  then have "rows (dropna_rows (fillna (DataFrame data)))
      = filter (\<lambda>r. \<not> list_all isna r) (map (\<lambda>r. map (cell_at r) ?cols) (map snd g))"
    by (simp only: rows_dropna_rows_fillna cols)
  also have "\<dots> = map (\<lambda>r. map (cell_at r) ?cols) (kept_rows g)"
    by (simp add: filter_map comp_def kept_rows_def row_all_null_def list_all_iff)
  finally have r2: "rows (dropna_rows (fillna (DataFrame data)))
      = map (\<lambda>r. map (cell_at r) ?cols) (kept_rows g)" .
  have mask: "column_mask (dropna_rows (fillna (DataFrame data)))
      = map (\<lambda>j. \<not> column_all_null g (?cols ! j)) [0..<length ?cols]"
    by (rule column_mask_pruned[OF wf' data_def[THEN meta_eq_to_obj_eq]])
  show "rows P = tabular_rows g"
    unfolding P_def dropna_columns_def
    by (simp add: r2 mask tabular_rows_def kept_columns_def comp_def
        select_map_nth_map[of "\<lambda>c. \<not> column_all_null g c" ?cols])
qed


lemma index_pruned_first:
  assumes "g = (k0, r0) # g'" and "\<not> row_all_null g r0"
  defines "data \<equiv> map (\<lambda>(row, r). row_cells r) g"
  shows "\<exists>labels. index (dropna_columns (dropna_rows (fillna (DataFrame data)))) = 0 # labels"
proof -
  let ?cols = "grid_columns g"
  have cols: "union_keys data = ?cols" by (simp add: data_def union_keys_row_cells)
  have "\<not> list_all isna (map (cell_at r0) ?cols)"
    using assms(2) by (simp add: row_all_null_def list_all_iff)
  then have keep: "\<not> list_all isna (map fillna_cell (record_row (union_keys data) (row_cells r0)))"
    by (simp add: fillna_record_row cols)
  have d: "data = row_cells r0 # map (\<lambda>(row, r). row_cells r) g'"
    by (simp add: data_def assms(1))
  have u: "[0..<length data] = 0 # [1..<length data]"
    by (simp add: d upt_conv_Cons del: upt_Suc)
  show ?thesis
    unfolding dropna_columns_def dropna_rows_def fillna_def DataFrame_def Let_def
    using keep by (simp add: u, simp add: d)
qed

text \<open>
  C7. The claim: for every wire grid with a column whose every cell is null, the
  conversion to tabular form drops that column, so the \<open>columnCount\<close> of a later
  export excludes it. For a grid in which no row survives the pruning there is no
  tabular form when a header is asked for: the names are taken from the first surviving
  row with \<open>df.iloc[0]\<close>, which raises \<open>IndexError\<close> on the empty frame, and the code
  has no provision for a sheet without a header row. The grid whose only column is
  null is not converted and nothing is exported.
\<close>

theorem null_columns_pruned_counterexample:
  "CStr ''A'' \<in> set (grid_columns null_only_grid)
   \<and> column_all_null null_only_grid (CStr ''A'')
   \<and> table_to_pandas null_only_grid True = Inl IndexError"
proof -
  have a: "CStr ''A'' \<in> set (grid_columns null_only_grid)" by code_simp
  have b: "column_all_null null_only_grid (CStr ''A'')" by code_simp
  have c: "table_to_pandas null_only_grid True = Inl IndexError" by code_simp
  from a b c show ?thesis by (intro conjI)
qed

text \<open>
  C7, amended. For every wire grid whose column entries are dictionaries, the conversion
  to tabular form returns when no header is asked for, and with header when the first
  row of the grid is not null. The frame it returns consists of exactly the columns and
  the rows of the grid that are not null (with header the first of these rows supplies
  the names and is removed), so a column whose every cell is null is not in it. A later
  export of the frame returns, provided a column is left when it adds a header row, and
  declares as \<open>columnCount\<close> the number of columns of the grid that are not null. For
  the 3 by 3 grid with the null column \<open>C\<close> the exported \<open>columnCount\<close> is 2.
\<close>

theorem null_columns_pruned:
  assumes wf: "well_formed_grid g"
    and first: "header \<Longrightarrow> g \<noteq> [] \<and> \<not> row_all_null g (snd (hd g))"
    and some: "header' \<Longrightarrow> kept_columns g \<noteq> []"
  shows "\<exists>df w. table_to_pandas g header = Inr df
     \<and> (\<not> header \<longrightarrow> df = \<lparr>index = map int [0..<length (tabular_rows g)],
                               columns = kept_columns g, rows = tabular_rows g\<rparr>)
     \<and> (header \<longrightarrow> tabular_rows g \<noteq> []
           \<and> df = \<lparr>index = map int [0..<length (tl (tabular_rows g))],
                    columns = hd (tabular_rows g), rows = tl (tabular_rows g)\<rparr>)
     \<and> export_sheet header' sheet df = Inr w
     \<and> columnCount w = length (kept_columns g)
     \<and> (\<forall>c. column_all_null g c \<longrightarrow> c \<notin> set (kept_columns g))"
proof -
  define data where "data = map (\<lambda>(row, r). row_cells r) g"
  define P where "P = dropna_columns (dropna_rows (fillna (DataFrame data)))"
  have cr: "collect_rows g = Inr data"
    and cP: "columns P = kept_columns g"
    and rP: "rows P = tabular_rows g"
    unfolding P_def data_def by (rule pruned_frame[OF wf])+
  have rect: "rectangular P" unfolding P_def by (rule rectangular_pruned)
  then have len: "length (index P) = length (rows P)" by (simp add: rectangular_def)
  have srt: "sorted (index P)"
    unfolding P_def by (rule strict_sorted_imp_sorted[OF index_pruned_strictly_sorted])
  have nulls: "\<forall>c. column_all_null g c \<longrightarrow> c \<notin> set (kept_columns g)"
    by (simp add: kept_columns_def)
  obtain df where conv: "table_to_pandas g header = Inr df"
    and nh: "\<not> header \<longrightarrow> df = \<lparr>index = map int [0..<length (tabular_rows g)],
                               columns = kept_columns g, rows = tabular_rows g\<rparr>"
    and hh: "header \<longrightarrow> tabular_rows g \<noteq> []
           \<and> df = \<lparr>index = map int [0..<length (tl (tabular_rows g))],
                    columns = hd (tabular_rows g), rows = tl (tabular_rows g)\<rparr>"
    and lc: "length (columns df) = length (kept_columns g)"
  proof (cases header)
    case False
    have "sort_index P = P" by (rule sort_index_sorted[OF srt len])
    with False cr have "table_to_pandas g header = Inr (reset_index P)"
      by (simp add: table_to_pandas_def P_def)
    moreover have "reset_index P = \<lparr>index = map int [0..<length (tabular_rows g)],
                               columns = kept_columns g, rows = tabular_rows g\<rparr>"
      using cP rP by (simp add: reset_index_def)
    ultimately show ?thesis using False that by simp
  next
    case True
    with first obtain k0 r0 g' where g: "g = (k0, r0) # g'" and nn: "\<not> row_all_null g r0"
      by (cases g) auto
    from index_pruned_first[OF g nn] obtain labels where ix: "index P = 0 # labels"
      unfolding P_def data_def by blast
    with len obtain names rest where rs: "rows P = names # rest"
      by (cases "rows P") auto
    from header_from_first_row[OF cr P_def rs ix]
    have res: "table_to_pandas g True
        = Inr \<lparr>index = map int [0..<length rest], columns = names, rows = rest\<rparr>" .
    from rs rP have tr: "tabular_rows g = names # rest" by simp
    from rect rs cP have "length names = length (kept_columns g)"
      by (simp add: rectangular_def)
    with True res tr that show ?thesis by simp
  qed
  from some lc have "header' \<Longrightarrow> columns df \<noteq> []" by auto
  from export_sheet_returns[OF this] obtain w where w: "export_sheet header' sheet df = Inr w"
    by blast
  from columnCount_export_sheet[OF w] lc have "columnCount w = length (kept_columns g)" by simp
  with conv nh hh w nulls show ?thesis by blast
qed

theorem null_columns_pruned_witness:
  "well_formed_grid grid_3x3
   \<and> grid_3x3 \<noteq> [] \<and> \<not> row_all_null grid_3x3 (snd (hd grid_3x3))
   \<and> kept_columns grid_3x3 = [CStr ''A'', CStr ''B'']
   \<and> column_all_null grid_3x3 (CStr ''C'') \<and> CStr ''C'' \<in> set (grid_columns grid_3x3)
   \<and> table_to_pandas grid_3x3 True = Inr frame_of_grid_3x3
   \<and> export_sheet True ''S'' frame_of_grid_3x3 = Inr sheet_of_grid_3x3
   \<and> columnCount sheet_of_grid_3x3 = length (kept_columns grid_3x3)
   \<and> columnCount sheet_of_grid_3x3 = 2"
proof -
  have wf: "well_formed_grid grid_3x3"
    by (simp add: well_formed_grid_def well_formed_row_def grid_3x3_def)
  have first: "grid_3x3 \<noteq> [] \<and> \<not> row_all_null grid_3x3 (snd (hd grid_3x3))"
    by code_simp
  have kc: "kept_columns grid_3x3 = [CStr ''A'', CStr ''B'']" by code_simp
  have c: "column_all_null grid_3x3 (CStr ''C'')" by code_simp
  have b: "CStr ''C'' \<in> set (grid_columns grid_3x3)" by code_simp
  have a: "table_to_pandas grid_3x3 True = Inr frame_of_grid_3x3" by code_simp
  have x: "export_sheet True ''S'' frame_of_grid_3x3 = Inr sheet_of_grid_3x3" by code_simp
  from kc have ne: "kept_columns grid_3x3 \<noteq> []" by simp
  from null_columns_pruned[of grid_3x3 True True "''S''", OF wf first ne]
  obtain df w where "table_to_pandas grid_3x3 True = Inr df"
    and "export_sheet True ''S'' df = Inr w"
    and "columnCount w = length (kept_columns grid_3x3)"
    by blast
  with a x have "columnCount sheet_of_grid_3x3 = length (kept_columns grid_3x3)" by simp
  with wf first kc c b a x show ?thesis by simp
qed

section \<open>Properties of the conversion from tabular to wire\<close>

text \<open>Sorting by the index puts the header row, which is appended with the label 0 below
  the rows relabelled from 1, in front; a frame with the default index is left as it
  is.\<close>

lemma foldr_insort_key_least:
  assumes "sorted (map f zs)" and "\<forall>x \<in> set zs. f z < f x"
  shows "foldr (insort_key f) zs [z] = z # zs"
  using assms
proof (induction zs)
  case Nil
  then show ?case by simp
next
  case (Cons a zs)
  then have ih: "foldr (insort_key f) zs [z] = z # zs" by simp
  from Cons.prems have lt: "f z < f a" and le: "\<forall>x \<in> set zs. f a \<le> f x" by auto
  from lt have "\<not> f a \<le> f z" by (simp add: not_le)
  then have "insort_key f a (z # zs) = z # insort_key f a zs" by simp
  also from le have "insort_key f a zs = a # zs" by (rule insort_is_Cons)
  finally show ?case using ih by simp
qed

lemma sort_key_snoc_least:
  assumes "sorted (map f zs)" and "\<forall>x \<in> set zs. f z < f x"
  shows "sort_key f (zs @ [z]) = z # zs"
  using foldr_insort_key_least[OF assms] by (simp add: sort_key_def)

lemma sorted_map_int_upt: "sorted (map int [0..<n])"
  by (simp add: sorted_iff_nth_mono)

lemma sort_index_default:
  assumes "default_index df"
  shows "sort_index df = df"
proof -
  let ?z = "zip (index df) (rows df)"
  from assms have len: "length (index df) = length (rows df)"
    by (simp add: default_index_def)
  then have fst: "map fst ?z = index df" and snd: "map snd ?z = rows df" by simp_all
  from assms have "sorted (map fst ?z)"
    unfolding fst by (simp add: default_index_def sorted_map_int_upt)
  then have "sort_key fst ?z = ?z" by (rule sort_key_id_if_sorted)
  with fst snd show ?thesis by (simp add: sort_index_def)
qed

lemma add_header_row_default:
  assumes "default_index df" and "columns df \<noteq> []"
  shows "add_header_row df =
           Inr (df\<lparr>index := map (\<lambda>i. i + 1) (index df) @ [0], rows := rows df @ [columns df]\<rparr>)"
proof -
  from assms(1) have "0 \<notin> set (map (\<lambda>i. i + 1) (index df))"
    by (auto simp: default_index_def)
  with assms(2) show ?thesis by (simp add: add_header_row_def loc_set_def)
qed

lemma sort_index_header_row:
  assumes "default_index df"
  shows "sort_index (df\<lparr>index := map (\<lambda>i. i + 1) (index df) @ [0],
                       rows := rows df @ [columns df]\<rparr>) =
           df\<lparr>index := 0 # map (\<lambda>i. i + 1) (index df), rows := columns df # rows df\<rparr>"
proof -
  let ?ix = "map (\<lambda>i. i + 1) (index df)"
  let ?z = "zip ?ix (rows df)"
  from assms have len: "length ?ix = length (rows df)"
    by (simp add: default_index_def)
  then have fst: "map fst ?z = ?ix" and snd: "map snd ?z = rows df" by simp_all
  from assms have ix: "?ix = map (\<lambda>i. int i + 1) [0..<length (rows df)]"
    by (simp add: default_index_def)
  have "sorted ?ix" unfolding ix by (simp add: sorted_iff_nth_mono)
  then have s: "sorted (map fst ?z)" by (simp only: fst)
  have l: "\<forall>x \<in> set ?z. fst (0::int, columns df) < fst x"
  proof
    fix x assume "x \<in> set ?z"
    then have "fst x \<in> set ?ix" by (metis in_set_zipE prod.collapse)
    then show "fst (0::int, columns df) < fst x" unfolding ix by auto
  qed
  have "zip (?ix @ [0]) (rows df @ [columns df]) = ?z @ [(0, columns df)]"
    using len by simp
  then have "sort_key fst (zip (?ix @ [0]) (rows df @ [columns df])) = (0, columns df) # ?z"
    using sort_key_snoc_least[OF s l] by simp
  with fst snd show ?thesis by (simp add: sort_index_def)
qed

lemma export_sheet_default:
  assumes "default_index df" and "header \<Longrightarrow> columns df \<noteq> []"
  shows "export_sheet header sheet df =
     Inr \<lparr>name = sheet, rowCount = length (export_rows header df),
      columnCount = length (columns df),
      dataTable = wrap_values
        (zip (map (\<lambda>i. CNum (int i)) [0..<length (export_rows header df)])
             (map (\<lambda>r. zip (map (\<lambda>j. CNum (int j)) [0..<length (columns df)]) (map replace_cell r))
                  (export_rows header df)))\<rparr>"
proof (cases header)
  case True
  with assms(2) have ne: "columns df \<noteq> []" by simp
  from True show ?thesis
    by (simp add: export_sheet_def add_header_row_default[OF assms(1) ne]
        sort_index_header_row[OF assms(1)] Let_def shape_def
        reset_index_def replace_special_def to_dict_index_def export_rows_def comp_def
        del: upt_Suc)
next
  case False
  then show ?thesis
    by (simp add: export_sheet_def sort_index_default[OF assms(1)] Let_def shape_def
        reset_index_def replace_special_def to_dict_index_def export_rows_def comp_def)
qed

lemma inj_CNum_int: "inj (\<lambda>i. CNum (int i))"
  by (simp add: inj_on_def)








text \<open>For a table whose sheets are all frames \<open>convert_pd_to_export\<close> is the export of
  each sheet, and the object is not changed. A frame without columns cannot take a
  header row.\<close>

lemma convert_pd_to_export_frames:
  assumes "tb_table self = Some t" and "list_all is_frame (map snd t)"
  shows "convert_pd_to_export self header =
           (case export_sheets header t of
              Inl err \<Rightarrow> Inl err
            | Inr ws \<Rightarrow> Inr (self, Some ws, []))"
  using assms by (simp add: convert_pd_to_export_def get_or_def split: sum.splits)

lemma export_sheets_single:
  "export_sheets header [(sheet, SFrame df)] =
     (case export_sheet header sheet df of Inl err \<Rightarrow> Inl err | Inr w \<Rightarrow> Inr [(sheet, w)])"
  by (simp split: sum.splits)

lemma export_sheet_no_columns:
  "export_sheet True sheet \<lparr>index = [], columns = [], rows = []\<rparr> = Inl ValueError"
  by (simp add: export_sheet_def add_header_row_def loc_set_def)



section \<open>Properties of the parser\<close>

text \<open>A batch and the children of a group are parsed record by record: the result for a
  list is composed of the results for its parts.\<close>

lemma parse_elements_append:
  "parse_elements ui srv (xs @ ys) =
     (case parse_elements ui srv xs of
        Inl err \<Rightarrow> Inl err
      | Inr (rs1, out1) \<Rightarrow>
          (case parse_elements ui srv ys of
             Inl err \<Rightarrow> Inl err
           | Inr (rs2, out2) \<Rightarrow> Inr (rs1 @ rs2, out1 @ out2)))"
  by (induction xs) (auto split: sum.splits)

lemma parse_children_append:
  "parse_children ui srv (xs @ ys) =
     (case parse_children ui srv xs of
        Inl err \<Rightarrow> Inl err
      | Inr (cs1, out1) \<Rightarrow>
          (case parse_children ui srv ys of
             Inl err \<Rightarrow> Inl err
           | Inr (cs2, out2) \<Rightarrow> Inr (cs1 @ cs2, out1 @ out2)))"
  by (induction xs) (auto split: sum.splits option.splits)

lemma parse_unknown:
  assumes "get_or (element_type u) '''' \<notin> recognized_tags"
  shows "parse_data_element ui srv u = Inr (None, [Unknown_element_type u])"
proof (cases u)
  case (WireRecord t i ti c d oct e ch)
  with assms show ?thesis
    by (simp add: recognized_tags_def parse_leaf_def Let_def)
qed

lemma parse_leaf_recognized:
  assumes "parse_leaf ui srv s = Inr (r, out)"
    and "get_or (element_type s) '''' \<in> recognized_tags"
    and "get_or (element_type s) '''' \<noteq> ''DATA_ELEMENT_GROUP''"
  shows "\<exists>x. r = Some x \<and> variant_tag x = get_or (element_type s) ''''"
  using assms
  by (auto simp: recognized_tags_def parse_leaf_def Let_def FileElement_init_def split: sum.splits if_splits)

lemma parse_recognized:
  assumes "parse_data_element ui srv s = Inr (r, out)"
    and "get_or (element_type s) '''' \<in> recognized_tags"
  shows "\<exists>x. r = Some x \<and> variant_tag x = get_or (element_type s) ''''"
proof (cases s)
  case (WireRecord t i ti c d oct e ch)
  show ?thesis
  proof (cases "get_or t '''' = ''DATA_ELEMENT_GROUP''")
    case True
    with assms(1) WireRecord show ?thesis
      by (auto split: sum.splits)
  next
    case False
    with assms WireRecord have "parse_leaf ui srv s = Inr (r, out)" by simp
    from parse_leaf_recognized[OF this assms(2)] False WireRecord show ?thesis by simp
  qed
qed

text \<open>A record that holds no table is always parsed: it yields an object of the class of
  its tag when the tag is recognized and no object otherwise, and the children of a
  group are the objects of its recognized records, in order. A record with the tag
  \<open>TABLE\<close> is parsed to what the constructor of \<open>TableElement\<close> returns.\<close>

lemma parse_leaf_table_free:
  assumes "get_or (element_type s) '''' \<noteq> ''TABLE''"
  shows "\<exists>r. parse_leaf ui srv s = Inr (r, if r = None then [Unknown_element_type s] else [])
           \<and> map_option variant_tag r
               = (if record_tag s \<in> recognized_tags \<and> record_tag s \<noteq> ''DATA_ELEMENT_GROUP''
                  then Some (record_tag s) else None)"
  using assms
  by (auto simp: parse_leaf_def Let_def recognized_tags_def record_tag_def)

lemma parse_table_free:
  "(table_free s \<longrightarrow>
      (\<exists>r out. parse_data_element ui srv s = Inr (r, out)
         \<and> map_option variant_tag r
             = (if record_tag s \<in> recognized_tags then Some (record_tag s) else None)))"
  and parse_children_table_free:
  "(list_all table_free ss \<longrightarrow>
      (\<exists>cs out. parse_children ui srv ss = Inr (cs, out)
         \<and> map variant_tag cs = filter (\<lambda>t. t \<in> recognized_tags) (map record_tag ss)))"
proof (induction ui srv s and ui srv ss rule: parse_data_element_parse_children.induct)
  case (1 user_info srv t i ti c d oct e ch)
  show ?case
  proof (cases "get_or t '''' = ''DATA_ELEMENT_GROUP''")
    case True
    show ?thesis
    proof
      assume "table_free (WireRecord t i ti c d oct e ch)"
      with True have "list_all table_free ch" by simp
      with 1(1)[OF True] obtain cs out where
        "parse_children user_info srv ch = Inr (cs, out)" by blast
      with True show "\<exists>r out. parse_data_element user_info srv (WireRecord t i ti c d oct e ch) = Inr (r, out)
         \<and> map_option variant_tag r
             = (if record_tag (WireRecord t i ti c d oct e ch) \<in> recognized_tags
                then Some (record_tag (WireRecord t i ti c d oct e ch)) else None)"
        by (simp add: record_tag_def recognized_tags_def DataElementGroup_init_def)
    qed
  next
    case False
    show ?thesis
    proof
      assume tf: "table_free (WireRecord t i ti c d oct e ch)"
      with False have nt: "get_or (element_type (WireRecord t i ti c d oct e ch)) '''' \<noteq> ''TABLE''"
        by simp
      from parse_leaf_table_free[OF nt, of user_info srv] False
      show "\<exists>r out. parse_data_element user_info srv (WireRecord t i ti c d oct e ch) = Inr (r, out)
         \<and> map_option variant_tag r
             = (if record_tag (WireRecord t i ti c d oct e ch) \<in> recognized_tags
                then Some (record_tag (WireRecord t i ti c d oct e ch)) else None)"
        by (auto simp: record_tag_def)
    qed
  qed
next
  case (2 user_info srv)
  show ?case by simp
next
  case (3 user_info srv child rest)
  show ?case
  proof
    assume a: "list_all table_free (child # rest)"
    then have "table_free child" by simp
    with 3(1) obtain r out1 where p: "parse_data_element user_info srv child = Inr (r, out1)"
      and v: "map_option variant_tag r
             = (if record_tag child \<in> recognized_tags then Some (record_tag child) else None)"
      by blast
    from a have "list_all table_free rest" by simp
    with 3(2)[OF p refl] obtain cs out2 where
      q: "parse_children user_info srv rest = Inr (cs, out2)"
      and w: "map variant_tag cs = filter (\<lambda>t. t \<in> recognized_tags) (map record_tag rest)"
      by blast
    from p q v w show "\<exists>cs out. parse_children user_info srv (child # rest) = Inr (cs, out)
         \<and> map variant_tag cs
             = filter (\<lambda>t. t \<in> recognized_tags) (map record_tag (child # rest))"
      by (cases r) (auto split: if_splits)
  qed
qed

lemma parse_elements_table_free:
  "list_all table_free es \<Longrightarrow>
     \<exists>rs out. parse_elements ui srv es = Inr (rs, out)
       \<and> map (map_option variant_tag) rs
           = map (\<lambda>s. if record_tag s \<in> recognized_tags then Some (record_tag s) else None) es"
proof (induction es)
  case Nil
  then show ?case by simp
next
  case (Cons s es)
  then have "table_free s" and "list_all table_free es" by simp_all
  from parse_table_free[of s ui srv] \<open>table_free s\<close> obtain r out1 where
    p: "parse_data_element ui srv s = Inr (r, out1)"
    and v: "map_option variant_tag r
             = (if record_tag s \<in> recognized_tags then Some (record_tag s) else None)"
    by blast
  from Cons.IH[OF \<open>list_all table_free es\<close>] obtain rs out2 where
    q: "parse_elements ui srv es = Inr (rs, out2)"
    and w: "map (map_option variant_tag) rs
           = map (\<lambda>s. if record_tag s \<in> recognized_tags then Some (record_tag s) else None) es"
    by blast
  from p q v w show ?case by simp
qed

lemma unknown_table_free:
  assumes "record_tag u \<notin> recognized_tags"
  shows "table_free u"
  using assms by (cases u) (auto simp: record_tag_def recognized_tags_def)

lemma parse_table_record:
  assumes "record_tag s = ''TABLE''"
  shows "parse_data_element ui srv s =
     (case TableElement_init ui srv (get_or (rec_id s) '''') (get_or (rec_entry_id s) '''')
             (Some []) True True of
        Inl err \<Rightarrow> Inl err
      | Inr (tb, out) \<Rightarrow> Inr (Some (Table tb), out))"
proof (cases s)
  case (WireRecord t i ti c d oct e ch)
  with assms show ?thesis
    by (auto simp: record_tag_def parse_leaf_def Let_def split: sum.splits)
qed


text \<open>
  C10. The claim: a record whose type tag is not recognized yields no object and a
  diagnostic, while every sibling with a recognized tag still parses to its variant
  object. The second part fails for a table sibling: \<open>parse_data_element\<close> constructs the
  \<open>TableElement\<close>, which fetches and converts the table, and nothing in the parser or in
  \<open>Entry.get_entry\<close> catches an exception. A batch of a well plate and a table whose
  sheet is empty, or whose request fails, yields no object at all.
\<close>

theorem table_sibling_raises_counterexample:
  "record_tag well_plate \<notin> recognized_tags
   \<and> record_tag empty_table_record \<in> recognized_tags
   \<and> parse_elements (Some logged_in) empty_sheet_server [well_plate, empty_table_record]
       = Inl IndexError
   \<and> record_tag missing_table_record \<in> recognized_tags
   \<and> parse_elements (Some logged_in) small_server [well_plate, missing_table_record]
       = Inl RequestError"
proof -
  have a: "record_tag well_plate \<notin> recognized_tags"
    by (simp add: record_tag_def well_plate_def get_or_def recognized_tags_def)
  have b: "record_tag empty_table_record \<in> recognized_tags"
    by (simp add: record_tag_def empty_table_record_def get_or_def recognized_tags_def)
  have c: "parse_elements (Some logged_in) empty_sheet_server [well_plate, empty_table_record]
       = Inl IndexError"
    by code_simp
  have d: "record_tag missing_table_record \<in> recognized_tags"
    by (simp add: record_tag_def missing_table_record_def get_or_def recognized_tags_def)
  have e: "parse_elements (Some logged_in) small_server [well_plate, missing_table_record]
       = Inl RequestError"
    by code_simp
  from a b c d e show ?thesis by (intro conjI)
qed

text \<open>
  C10, amended. A record whose type tag is not recognized yields no object and the
  diagnostic \<open>Unknown element type\<close>, raising nothing. In a batch or a group whose
  other records hold no table, every record is parsed: the batch holds \<open>None\<close> for the
  records with an unknown tag and, for each record with a recognized tag, an object of
  the class of that tag, at the record's position; the children of the group are the
  objects of its recognized records, in order. In any batch or group the records before
  and after the unknown one are parsed to exactly what they are parsed to without it,
  and a record with the tag \<open>TABLE\<close> yields the table element when its constructor
  returns and the constructor's exception otherwise.
\<close>

theorem unknown_tag_skipped_siblings_parsed:
  assumes "record_tag u \<notin> recognized_tags" and "list_all table_free (xs @ ys)"
  shows "parse_data_element ui srv u = Inr (None, [Unknown_element_type u])
    \<and> (\<exists>rs out. parse_elements ui srv (xs @ u # ys) = Inr (rs, out)
          \<and> map (map_option variant_tag) rs
              = map (\<lambda>s. if record_tag s \<in> recognized_tags then Some (record_tag s) else None)
                    (xs @ u # ys))
    \<and> (\<exists>cs out. parse_children ui srv (xs @ u # ys) = Inr (cs, out)
          \<and> map variant_tag cs
              = filter (\<lambda>t. t \<in> recognized_tags) (map record_tag (xs @ ys)))
    \<and> parse_elements ui srv (zs @ u # ws) =
        (case parse_elements ui srv zs of
           Inl err \<Rightarrow> Inl err
         | Inr (rs1, out1) \<Rightarrow>
             (case parse_elements ui srv ws of
                Inl err \<Rightarrow> Inl err
              | Inr (rs2, out2) \<Rightarrow> Inr (rs1 @ None # rs2, out1 @ Unknown_element_type u # out2)))
    \<and> parse_children ui srv (zs @ u # ws) =
        (case parse_children ui srv zs of
           Inl err \<Rightarrow> Inl err
         | Inr (cs1, out1) \<Rightarrow>
             (case parse_children ui srv ws of
                Inl err \<Rightarrow> Inl err
              | Inr (cs2, out2) \<Rightarrow> Inr (cs1 @ cs2, out1 @ Unknown_element_type u # out2)))
    \<and> (\<forall>s. record_tag s = ''TABLE'' \<longrightarrow>
          parse_data_element ui srv s =
            (case TableElement_init ui srv (get_or (rec_id s) '''') (get_or (rec_entry_id s) '''')
                    (Some []) True True of
               Inl err \<Rightarrow> Inl err
             | Inr (tb, out) \<Rightarrow> Inr (Some (Table tb), out)))"
proof -
  from assms(1) have un: "get_or (element_type u) '''' \<notin> recognized_tags"
    by (simp add: record_tag_def)
  note pu = parse_unknown[OF un, of ui srv]
  from assms have tf: "list_all table_free (xs @ u # ys)"
    by (simp add: unknown_table_free)
  have b: "\<exists>rs out. parse_elements ui srv (xs @ u # ys) = Inr (rs, out)
          \<and> map (map_option variant_tag) rs
              = map (\<lambda>s. if record_tag s \<in> recognized_tags then Some (record_tag s) else None)
                    (xs @ u # ys)"
    using tf by (rule parse_elements_table_free)
  from parse_children_table_free[of "xs @ u # ys" ui srv] tf obtain cs out where
    pc: "parse_children ui srv (xs @ u # ys) = Inr (cs, out)"
    and vc: "map variant_tag cs
        = filter (\<lambda>t. t \<in> recognized_tags) (map record_tag (xs @ u # ys))"
    by blast
  from vc assms(1) have "map variant_tag cs
        = filter (\<lambda>t. t \<in> recognized_tags) (map record_tag (xs @ ys))" by simp
  with pc have c: "\<exists>cs out. parse_children ui srv (xs @ u # ys) = Inr (cs, out)
          \<and> map variant_tag cs
              = filter (\<lambda>t. t \<in> recognized_tags) (map record_tag (xs @ ys))" by blast
  have d: "parse_elements ui srv (zs @ u # ws) =
        (case parse_elements ui srv zs of
           Inl err \<Rightarrow> Inl err
         | Inr (rs1, out1) \<Rightarrow>
             (case parse_elements ui srv ws of
                Inl err \<Rightarrow> Inl err
              | Inr (rs2, out2) \<Rightarrow> Inr (rs1 @ None # rs2, out1 @ Unknown_element_type u # out2)))"
    by (simp add: parse_elements_append pu split: sum.splits)
  have e: "parse_children ui srv (zs @ u # ws) =
        (case parse_children ui srv zs of
           Inl err \<Rightarrow> Inl err
         | Inr (cs1, out1) \<Rightarrow>
             (case parse_children ui srv ws of
                Inl err \<Rightarrow> Inl err
              | Inr (cs2, out2) \<Rightarrow> Inr (cs1 @ cs2, out1 @ Unknown_element_type u # out2)))"
    by (simp add: parse_children_append pu split: sum.splits)
  have f: "\<forall>s. record_tag s = ''TABLE'' \<longrightarrow>
          parse_data_element ui srv s =
            (case TableElement_init ui srv (get_or (rec_id s) '''') (get_or (rec_entry_id s) '''')
                    (Some []) True True of
               Inl err \<Rightarrow> Inl err
             | Inr (tb, out) \<Rightarrow> Inr (Some (Table tb), out))"
    using parse_table_record by blast
  from pu b c d e f show ?thesis by (intro conjI)
qed

theorem unknown_tag_skipped_siblings_parsed_witness:
  "record_tag well_plate \<notin> recognized_tags
   \<and> list_all table_free ([text_record, file_record] @ [group_record])
   \<and> parse_data_element None small_server well_plate = Inr (None, [Unknown_element_type well_plate])
   \<and> parse_elements None small_server ([text_record, file_record] @ well_plate # [group_record])
       = Inr ([Some (Text (TextElement_init ''hi'' ''1'')), Some (File (FileElement_init ''4'')),
               None,
               Some (Group (DataElementGroup_init ''g'' [Data (DataElement_init ''3'' ''d'')]))],
              [Unknown_element_type well_plate, Unknown_element_type well_plate])
   \<and> record_tag small_table_record = ''TABLE''
   \<and> parse_data_element (Some logged_in) small_server small_table_record
       = Inr (Some (Table (unloaded_table\<lparr>tb_entry_id := ''e1'', tb_creation_date := ''2024-01-01'',
                 tb_owner_id := ''1'', tb_title := ''t'',
                 tb_table := Some [(''S'', SWire small_sheet)]\<rparr>)), [])"
proof -
  have h1: "record_tag well_plate \<notin> recognized_tags"
    by (simp add: record_tag_def well_plate_def get_or_def recognized_tags_def)
  have h2: "list_all table_free ([text_record, file_record] @ [group_record])"
    by code_simp
  have x: "parse_elements None small_server [text_record, file_record]
      = Inr ([Some (Text (TextElement_init ''hi'' ''1'')), Some (File (FileElement_init ''4''))], [])"
    by code_simp
  have y: "parse_elements None small_server [group_record]
     = Inr ([Some (Group (DataElementGroup_init ''g'' [Data (DataElement_init ''3'' ''d'')]))],
            [Unknown_element_type well_plate])"
    by code_simp
  have h3: "record_tag small_table_record = ''TABLE''"
    by (simp add: record_tag_def small_table_record_def get_or_def)
  have z: "TableElement_init (Some logged_in) small_server
             (get_or (rec_id small_table_record) '''') (get_or (rec_entry_id small_table_record) '''')
             (Some []) True True
      = Inr (unloaded_table\<lparr>tb_entry_id := ''e1'', tb_creation_date := ''2024-01-01'',
                 tb_owner_id := ''1'', tb_title := ''t'',
                 tb_table := Some [(''S'', SWire small_sheet)]\<rparr>, [])"
    by code_simp
  from unknown_tag_skipped_siblings_parsed[OF h1 h2, of None small_server
      "[text_record, file_record]" "[group_record]"]
  have p1: "parse_data_element None small_server well_plate
        = Inr (None, [Unknown_element_type well_plate])"
    and p4: "parse_elements None small_server ([text_record, file_record] @ well_plate # [group_record]) =
        (case parse_elements None small_server [text_record, file_record] of
           Inl err \<Rightarrow> Inl err
         | Inr (rs1, out1) \<Rightarrow>
             (case parse_elements None small_server [group_record] of
                Inl err \<Rightarrow> Inl err
              | Inr (rs2, out2) \<Rightarrow>
                  Inr (rs1 @ None # rs2, out1 @ Unknown_element_type well_plate # out2)))"
    by blast+
  from unknown_tag_skipped_siblings_parsed[OF h1 h2, of "Some logged_in" small_server] h3
  have p6: "parse_data_element (Some logged_in) small_server small_table_record =
            (case TableElement_init (Some logged_in) small_server
                    (get_or (rec_id small_table_record) '''')
                    (get_or (rec_entry_id small_table_record) '''') (Some []) True True of
               Inl err \<Rightarrow> Inl err
             | Inr (tb, out) \<Rightarrow> Inr (Some (Table tb), out))"
    by blast
  from h1 h2 h3 p1 p4 p6 x y z show ?thesis by simp
qed

section \<open>The round trip from tabular to wire and back\<close>

text \<open>What an exported cell is read back as, the columns of a frame built from rows
  that all have the same keys, and the rows collected from an emitted grid.\<close>

lemma read_back_ordinary: "ordinary c \<Longrightarrow> read_back c = c"
  by (cases c) (simp_all add: ordinary_def read_back_def infinite_cell_def)

lemma isna_read_back: "isna (read_back c) = (\<not> ordinary c)"
  by (cases c) (simp_all add: ordinary_def read_back_def infinite_cell_def)

lemma read_back_finite: "\<not> infinite_cell c \<Longrightarrow> read_back c = fillna_cell c"
  by (cases c) (simp_all add: read_back_def infinite_cell_def)

lemma add_new_distinct:
  "distinct (seen @ ks) \<Longrightarrow> add_new seen ks = seen @ ks"
  by (induction ks arbitrary: seen) auto

lemma add_new_seen:
  "set ks \<subseteq> set seen \<Longrightarrow> add_new seen ks = seen"
  by (induction ks arbitrary: seen) auto

lemma foldl_add_new_same:
  "\<forall>ks \<in> set kss. ks = seen \<Longrightarrow> foldl add_new seen kss = seen"
  by (induction kss) (auto simp: add_new_seen)

lemma union_keys_same:
  assumes "distinct ks" and "data \<noteq> []" and "\<forall>d \<in> set data. map fst d = ks"
  shows "union_keys data = ks"
proof -
  from assms(2) obtain d ds where data: "data = d # ds" by (cases data) auto
  with assms(3) have d: "map fst d = ks" and ds: "\<forall>k \<in> set (map (map fst) ds). k = ks" by auto
  from assms(1) have "add_new [] ks = ks" using add_new_distinct[of "[]" ks] by simp
  with d ds show ?thesis by (simp add: union_keys_def data foldl_add_new_same)
qed

lemma record_row_zip:
  assumes "distinct ks" and "length vals = length ks"
  shows "record_row ks (zip ks vals) = vals"
proof (rule nth_equalityI)
  show "length (record_row ks (zip ks vals)) = length vals"
    using assms(2) by (simp add: record_row_def)
next
  fix i assume "i < length (record_row ks (zip ks vals))"
  then have i: "i < length ks" by (simp add: record_row_def)
  with assms have "map_of (zip ks vals) (ks ! i) = Some (vals ! i)"
    by (intro map_of_zip_nth) simp_all
  with i show "record_row ks (zip ks vals) ! i = vals ! i"
    by (simp add: record_row_def)
qed

lemma row_cells_wrapped:
  "row_cells (map (\<lambda>(col, v). (col, WDict [(''value'', v)])) cs) = cs"
  by (induction cs) (auto simp: row_cells_def entry_value_def)

lemma well_formed_wrapped:
  "well_formed_row (map (\<lambda>(col, v). (col, WDict [(''value'', v)])) cs)"
  by (induction cs) (auto simp: well_formed_row_def)

lemma collect_rows_wrap_values:
  "collect_rows (wrap_values d) = Inr (map snd d)"
proof -
  have wf: "list_all (\<lambda>(row, r). well_formed_row r) (wrap_values d)"
    by (induction d) (auto simp: wrap_values_def well_formed_wrapped)
  have "map (\<lambda>(row, r). row_cells r) (wrap_values d) = map snd d"
    by (induction d) (auto simp: wrap_values_def row_cells_wrapped)
  with collect_rows_well_formed[OF wf] show ?thesis by simp
qed

lemma select_all:
  "length xs = n \<Longrightarrow> select (map (\<lambda>j. True) [0..<n]) xs = xs"
proof -
  assume "length xs = n"
  then have "map (\<lambda>j. True) [0..<n] = map (\<lambda>x. True) xs"
    by (intro nth_equalityI) simp_all
  moreover have "map snd (filter fst (zip (map (\<lambda>x. True) xs) xs)) = xs"
    by (induction xs) auto
  ultimately show ?thesis by (simp add: select_def)
qed

lemma filter_zip_all:
  "\<forall>r \<in> set rs. Q r \<Longrightarrow> filter (\<lambda>(i, r). Q r) (zip is rs) = zip is rs"
  by (rule filter_True) (auto dest: set_zip_rightD)

lemma distinct_keys: "distinct (column_keys m)"
  by (simp add: column_keys_def distinct_map inj_on_def)

lemma length_keys [simp]: "length (column_keys m) = m"
  by (simp add: column_keys_def)

lemma DataFrame_zip_keys:
  assumes "R \<noteq> []" and "\<forall>r \<in> set R. length r = m"
  shows "DataFrame (map (\<lambda>r. zip (column_keys m) (map g r)) R) =
           \<lparr>index = map int [0..<length R], columns = column_keys m, rows = map (map g) R\<rparr>"
proof -
  let ?data = "map (\<lambda>r. zip (column_keys m) (map g r)) R"
  from assms have fst: "\<forall>d \<in> set ?data. map fst d = column_keys m" by auto
  from assms(1) have ne: "?data \<noteq> []" by simp
  have uk: "union_keys ?data = column_keys m"
    by (rule union_keys_same[OF distinct_keys ne fst])
  have "map (record_row (column_keys m)) ?data = map (map g) R"
    using assms(2) by (auto simp: record_row_zip distinct_keys)
  with uk show ?thesis by (simp add: DataFrame_def)
qed


lemma map_int_upt_Suc:
  "map int [0..<Suc n] = 0 # map (\<lambda>i. int i + 1) [0..<n]"
  by (simp add: upt_conv_Cons map_Suc_upt[symmetric] del: upt_Suc)

lemma filter_index_nonzero:
  assumes "length rs = n"
  shows "filter (\<lambda>(i, r). i \<noteq> 0) (zip (map (\<lambda>i. int i + 1) [0..<n]) rs)
         = zip (map (\<lambda>i. int i + 1) [0..<n]) rs"
  by (rule filter_True) (auto dest!: set_zip_leftD)

lemma sort_index_shifted:
  assumes "length rs = n"
  shows "sort_index \<lparr>index = map (\<lambda>i. int i + 1) [0..<n], columns = cs, rows = rs\<rparr>
         = \<lparr>index = map (\<lambda>i. int i + 1) [0..<n], columns = cs, rows = rs\<rparr>"
proof -
  let ?ix = "map (\<lambda>i. int i + 1) [0..<n]"
  from assms have fst: "map fst (zip ?ix rs) = ?ix" and snd: "map snd (zip ?ix rs) = rs"
    by simp_all
  have "sorted ?ix" by (simp add: sorted_iff_nth_mono)
  then have "sorted (map fst (zip ?ix rs))" by (simp only: fst)
  then have "sort_key fst (zip ?ix rs) = zip ?ix rs" by (rule sort_key_id_if_sorted)
  with fst snd show ?thesis by (simp add: sort_index_def)
qed

text \<open>
  C3. The claim: for every rectangular frame without fully-empty rows and columns,
  exporting with \<open>header=true\<close> and converting the sheet back with \<open>header=true\<close>
  reproduces the content, up to the type of the column names. This fails for a frame
  that holds an infinity: the export replaces it by null on purpose, and it is read
  back as NaN.
\<close>

theorem roundtrip_infinity_counterexample:
  "rectangular inf_frame \<and> default_index inf_frame \<and> no_empty_rows inf_frame
   \<and> no_empty_columns inf_frame
   \<and> roundtrip True ''S'' inf_frame
       = Inr \<lparr>index = [0], columns = [CStr ''a'', CStr ''b''], rows = [[CNaN, CNum 1]]\<rparr>
   \<and> [[CNaN, CNum 1]] \<noteq> rows inf_frame"
proof -
  have h: "rectangular inf_frame \<and> default_index inf_frame \<and> no_empty_rows inf_frame
      \<and> no_empty_columns inf_frame \<and> [[CNaN, CNum 1]] \<noteq> rows inf_frame"
    by (simp add: inf_frame_def rectangular_def default_index_def no_empty_rows_def
        no_empty_columns_def)
  have r: "roundtrip True ''S'' inf_frame
       = Inr \<lparr>index = [0], columns = [CStr ''a'', CStr ''b''], rows = [[CNaN, CNum 1]]\<rparr>"
    by code_simp
  from h r show ?thesis by simp
qed

text \<open>
  C3, amended. For every rectangular frame with the default index, without fully-empty
  rows and columns, without an infinite cell and with at least one column name that is
  neither missing nor infinite, the round trip with \<open>header=true\<close> returns the frame
  with the default index, the same rows in the same order with every missing value
  read back as NaN, and as column names the values of the header row as they are read
  back (a name that is missing or infinite becomes NaN).
\<close>

theorem roundtrip_with_header:
  assumes rect: "rectangular df" and dflt: "default_index df"
    and ner: "no_empty_rows df" and nec: "no_empty_columns df"
    and fin: "no_infinite_cells df"
    and nm: "list_ex ordinary (columns df)"
  shows "roundtrip True sheet df
         = Inr \<lparr>index = map int [0..<length (rows df)],
                columns = map read_back (columns df),
                rows = map (map fillna_cell) (rows df)\<rparr>"
proof -
  let ?m = "length (columns df)"
  let ?n = "length (rows df)"
  define R where "R = columns df # rows df"
  define data where "data = map (\<lambda>r. zip (column_keys ?m) (map replace_cell r)) R"
  define F1 where
    "F1 = \<lparr>index = map int [0..<length R], columns = column_keys ?m, rows = map (map read_back) R\<rparr>"
  define H where
    "H = \<lparr>index = map (\<lambda>i. int i + 1) [0..<?n], columns = map read_back (columns df),
          rows = map (map read_back) (rows df)\<rparr>"
  define G where
    "G = wrap_values (zip (map (\<lambda>i. CNum (int i)) [0..<length R]) data)"
  have R_ne: "R \<noteq> []" and lenR: "\<forall>r \<in> set R. length r = ?m"
    using rect by (auto simp: R_def rectangular_def list_all_iff)
  from nm have ne: "columns df \<noteq> []" by (auto simp: list_ex_iff)
  have ex: "export_sheet True sheet df
      = Inr \<lparr>name = sheet, rowCount = length R, columnCount = ?m, dataTable = G\<rparr>"
    by (simp add: export_sheet_default[OF dflt ne] export_rows_def column_keys_def R_def
        data_def G_def del: upt_Suc)
  have "length data = length R" by (simp add: data_def)
  then have cr: "collect_rows G = Inr data"
    unfolding G_def collect_rows_wrap_values by simp
  have F0: "DataFrame data
      = \<lparr>index = map int [0..<length R], columns = column_keys ?m, rows = map (map replace_cell) R\<rparr>"
    unfolding data_def using R_ne lenR by (rule DataFrame_zip_keys)
  have F1: "fillna (DataFrame data) = F1"
    unfolding F0 by (simp add: fillna_def F1_def read_back_def comp_def)
  have hdr: "\<not> list_all isna (map read_back (columns df))"
    using nm by (auto simp: list_all_iff list_ex_iff isna_read_back)
  have rws: "\<forall>r \<in> set (rows df). \<not> list_all isna (map read_back r)"
  proof
    fix r assume r: "r \<in> set (rows df)"
    with ner obtain c where c: "c \<in> set r" "\<not> isna c"
      by (auto simp: no_empty_rows_def list_all_iff)
    with fin r have "ordinary c"
      by (auto simp: no_infinite_cells_def list_all_iff ordinary_def)
    with c show "\<not> list_all isna (map read_back r)"
      by (auto simp: list_all_iff isna_read_back)
  qed
  from hdr rws have keep: "\<forall>r \<in> set (rows F1). \<not> list_all isna r"
    by (auto simp: F1_def R_def)
  have lenF1: "length (index F1) = length (rows F1)" by (simp add: F1_def)
  have F2: "dropna_rows F1 = F1"
    using filter_zip_all[OF keep, of "index F1"] lenF1
    by (simp add: dropna_rows_def)
  have col: "\<And>j. j < ?m \<Longrightarrow> \<not> list_all (\<lambda>r. isna (r ! j)) (rows F1)"
  proof -
    fix j assume j: "j < ?m"
    with nec have "\<exists>r \<in> set (rows df). \<not> isna (r ! j)"
      by (simp add: no_empty_columns_def list_all_iff list_ex_iff)
    then obtain r where r: "r \<in> set (rows df)" "\<not> isna (r ! j)" by blast
    from r(1) lenR j have jr: "j < length r" by (simp add: R_def)
    with fin r have "ordinary (r ! j)"
      by (auto simp: no_infinite_cells_def list_all_iff ordinary_def)
    with jr have "\<not> isna (map read_back r ! j)" by (simp add: isna_read_back)
    with r(1) show "\<not> list_all (\<lambda>r. isna (r ! j)) (rows F1)"
      by (auto simp: list_all_iff F1_def R_def)
  qed
  have cF1: "columns F1 = column_keys ?m" by (simp add: F1_def)
  have mask: "column_mask F1 = map (\<lambda>j. True) [0..<?m]"
    unfolding column_mask_def cF1 using col by simp
  have lenR': "\<forall>r \<in> set (rows F1). length r = ?m"
    using lenR by (auto simp: F1_def)
  have sr: "map (select (map (\<lambda>j. True) [0..<?m])) (rows F1) = rows F1"
    using lenR' by (intro map_idI select_all) auto
  have sc: "select (map (\<lambda>j. True) [0..<?m]) (columns F1) = columns F1"
    by (rule select_all) (simp add: cF1)
  have F3: "dropna_columns F1 = F1"
    unfolding dropna_columns_def mask sr sc by simp
  have th: "take_header F1 = Inr H"
    using filter_index_nonzero[of "map (map read_back) (rows df)" ?n]
    by (simp add: take_header_def iloc0_def drop_label_def map_int_upt_Suc F1_def R_def H_def
        del: upt_Suc)
  have so: "sort_index H = H"
    unfolding H_def by (rule sort_index_shifted) simp
  have fb: "map (map read_back) (rows df) = map (map fillna_cell) (rows df)"
    using fin by (auto simp: no_infinite_cells_def list_all_iff read_back_finite)
  have "roundtrip True sheet df = table_to_pandas G True"
    by (simp add: roundtrip_def ex)
  also have "\<dots> = Inr (reset_index (sort_index H))"
    unfolding table_to_pandas_def cr by (simp add: F1 F2 F3 th)
  also have "reset_index (sort_index H) = \<lparr>index = map int [0..<length (rows df)],
                columns = map read_back (columns df),
                rows = map (map fillna_cell) (rows df)\<rparr>"
    unfolding so by (simp add: H_def reset_index_def fb)
  finally show ?thesis .
qed

theorem roundtrip_with_header_witness:
  "rectangular one_cell_frame \<and> default_index one_cell_frame \<and> no_empty_rows one_cell_frame
   \<and> no_empty_columns one_cell_frame \<and> no_infinite_cells one_cell_frame
   \<and> list_ex ordinary (columns one_cell_frame)
   \<and> roundtrip True ''S'' one_cell_frame = Inr one_cell_frame"
proof -
  have h: "rectangular one_cell_frame" "default_index one_cell_frame" "no_empty_rows one_cell_frame"
    "no_empty_columns one_cell_frame" "no_infinite_cells one_cell_frame"
    "list_ex ordinary (columns one_cell_frame)"
    by (simp_all add: one_cell_frame_def rectangular_def default_index_def no_empty_rows_def
        no_empty_columns_def no_infinite_cells_def ordinary_def infinite_cell_def)
  from roundtrip_with_header[OF h, of "''S''"] h show ?thesis
    by (simp add: one_cell_frame_def read_back_def)
qed

text \<open>Where no column name is ordinary, the header row is pruned as a null row and the
  conversion back raises; where the index is not in order, the rows come back sorted by
  their labels.\<close>

lemma roundtrip_null_names_raises:
  "roundtrip True ''S'' \<lparr>index = [0], columns = [CNone], rows = [[CNum 1]]\<rparr> = Inl KeyError"
  by code_simp

lemma roundtrip_unordered_index:
  "roundtrip True ''S'' \<lparr>index = [1, 0], columns = [CStr ''a''], rows = [[CNum 1], [CNum 2]]\<rparr>
     = Inr \<lparr>index = [0, 1], columns = [CStr ''a''], rows = [[CNum 2], [CNum 1]]\<rparr>"
  by code_simp

end
